theory Spec2Isabelle
  imports Complex_Main "HOL-Library.List_Lexorder"
begin

section \<open>Lending library: service layer (lending-library.ts) over the DAO (library-dao.ts)\<close>

subsection \<open>Error codes and results\<close>

text \<open>
  \<^verbatim>\<open>Errors.errResult(message, code)\<close> carries a free-form message and a code. The header
  comment of lending-library.ts fixes only the code (the message "can be any suitable
  string"), so an error result is modelled by its code and \<^verbatim>\<open>Errors.Result<T>\<close> is
  \<open>code + 'a\<close> with \<open>Inl\<close> the error.
\<close>

datatype code = MISSING | BAD_TYPE | BAD_REQ | DB

type_synonym 'a result = "code + 'a"

subsection \<open>Numbers\<close>

text \<open>
  A JavaScript number is a double. A number of a request is modelled as a real (every
  finite double is one) or one of the three non-finite values.
\<close>

datatype js_number = Num real | NaN | PosInfinity | NegInfinity

fun num_is_integer :: "js_number \<Rightarrow> bool" where
  \<comment> \<open>\<^verbatim>\<open>Number.isInteger(n)\<close>\<close>
  "num_is_integer (Num r) = (of_int \<lfloor>r\<rfloor> = r)"
| "num_is_integer n = False"

fun num_less :: "js_number \<Rightarrow> js_number \<Rightarrow> bool" where
  \<comment> \<open>\<^verbatim>\<open>a < b\<close> on numbers: every comparison with NaN is false\<close>
  "num_less NaN b = False"
| "num_less a NaN = False"
| "num_less (Num a) (Num b) = (a < b)"
| "num_less (Num a) PosInfinity = True"
| "num_less (Num a) NegInfinity = False"
| "num_less PosInfinity b = False"
| "num_less NegInfinity NegInfinity = False"
| "num_less NegInfinity b = True"

fun num_le :: "js_number \<Rightarrow> js_number \<Rightarrow> bool" where
  \<comment> \<open>\<^verbatim>\<open>a <= b\<close> on numbers\<close>
  "num_le NaN b = False"
| "num_le a NaN = False"
| "num_le a b = (\<not> num_less b a)"

fun num_to_int :: "js_number \<Rightarrow> int" where
  \<comment> \<open>the value of a number that \<open>num_is_integer\<close> accepted\<close>
  "num_to_int (Num r) = \<lfloor>r\<rfloor>"
| "num_to_int n = 0"

text \<open>
  The stored \<^verbatim>\<open>nCopies\<close> is the one number the program computes with: \<^verbatim>\<open>addBook\<close>
  stores a number that \<^verbatim>\<open>Number.isInteger\<close> accepted, and every \<^verbatim>\<open>$inc\<close> adds such a
  number, 1 or -1. The store keeps it as a double and adds in double arithmetic, so its
  values are the integers that are doubles, the infinities and NaN, and a sum is rounded
  to the nearest double, ties to the even significand, with overflow to an infinity.
\<close>

datatype inum = Fin int | PosInf | NegInf | NotNum

function ulp :: "nat \<Rightarrow> nat" where
  \<comment> \<open>the distance between neighbouring doubles at the magnitude of \<open>n\<close>: 1 below \<open>2^53\<close>,
      doubled with every further binary digit\<close>
  "ulp n = (if n < 2 ^ 53 then 1 else 2 * ulp (n div 2))"
  by pat_completeness auto
termination
  by (relation "measure (\<lambda>n. n)") auto

definition round_nat :: "nat \<Rightarrow> nat" where
  \<comment> \<open>the multiple of \<open>ulp n\<close> nearest to \<open>n\<close>; of two equally near ones, the even multiple\<close>
  "round_nat n =
     (let u = ulp n; q = n div u; r = n mod u
      in (if 2 * r < u \<or> (2 * r = u \<and> even q) then q else q + 1) * u)"

definition round_double :: "int \<Rightarrow> inum" where
  \<comment> \<open>the double nearest to an integer; the largest finite double is \<open>2^1024 - 2^971\<close>\<close>
  "round_double z =
     (let m = round_nat (nat \<bar>z\<bar>)
      in if 2 ^ 1024 \<le> m then (if 0 \<le> z then PosInf else NegInf)
         else Fin (if 0 \<le> z then int m else - int m))"

definition is_double :: "int \<Rightarrow> bool" where
  \<comment> \<open>the integer is a double\<close>
  "is_double z = (round_double z = Fin z)"

fun inum_add :: "inum \<Rightarrow> inum \<Rightarrow> inum" where
  \<comment> \<open>\<^verbatim>\<open>a + b\<close> on these numbers\<close>
  "inum_add NotNum y = NotNum"
| "inum_add x NotNum = NotNum"
| "inum_add (Fin a) (Fin b) = round_double (a + b)"
| "inum_add PosInf NegInf = NotNum"
| "inum_add NegInf PosInf = NotNum"
| "inum_add PosInf y = PosInf"
| "inum_add x PosInf = PosInf"
| "inum_add NegInf y = NegInf"
| "inum_add x NegInf = NegInf"

fun inum_le0 :: "inum \<Rightarrow> bool" where
  \<comment> \<open>\<^verbatim>\<open>a <= 0\<close>\<close>
  "inum_le0 (Fin a) = (a \<le> 0)"
| "inum_le0 NegInf = True"
| "inum_le0 x = False"

subsection \<open>Strings\<close>

text \<open>
  A JavaScript string is modelled as the list of its Unicode code points; it is taken to
  be well formed (no lone surrogate), so that the store's UTF-8 form of it is the same
  list. \<open>str\<close> gives the string of an ASCII literal. \<^verbatim>\<open>\w\<close> is \<^verbatim>\<open>[A-Za-z0-9_]\<close>
  and \<^verbatim>\<open>\d\<close> is \<^verbatim>\<open>[0-9]\<close>.
\<close>

type_synonym ustring = "nat list"

definition str :: "string \<Rightarrow> ustring" where
  "str cs = map of_char cs"

definition is_digit :: "nat \<Rightarrow> bool" where
  "is_digit c = (48 \<le> c \<and> c \<le> 57)"

definition is_upper :: "nat \<Rightarrow> bool" where
  "is_upper c = (65 \<le> c \<and> c \<le> 90)"

definition is_lower :: "nat \<Rightarrow> bool" where
  "is_lower c = (97 \<le> c \<and> c \<le> 122)"

definition is_word_char :: "nat \<Rightarrow> bool" where
  \<comment> \<open>95 is the underscore\<close>
  "is_word_char c = (is_digit c \<or> is_upper c \<or> is_lower c \<or> c = 95)"

definition is_space :: "nat \<Rightarrow> bool" where
  \<comment> \<open>what \<^verbatim>\<open>trim()\<close> strips: the white space and line terminator code points of
      ECMAScript, that is TAB, LF, VT, FF, CR, U+FEFF, U+2028, U+2029 and the space
      separators (U+0020, U+00A0, U+1680, U+2000 to U+200A, U+202F, U+205F, U+3000)\<close>
  "is_space c =
     ((9 \<le> c \<and> c \<le> 13) \<or> c = 0x20 \<or> c = 0xA0 \<or> c = 0x1680 \<or> (0x2000 \<le> c \<and> c \<le> 0x200A) \<or>
      c = 0x2028 \<or> c = 0x2029 \<or> c = 0x202F \<or> c = 0x205F \<or> c = 0x3000 \<or> c = 0xFEFF)"

definition trim_is_empty :: "ustring \<Rightarrow> bool" where
  \<comment> \<open>\<^verbatim>\<open>s.trim() === ''\<close>\<close>
  "trim_is_empty s = list_all is_space s"

definition to_lower :: "nat \<Rightarrow> nat" where
  \<comment> \<open>the lower-case form of an ASCII letter; any other code point unchanged\<close>
  "to_lower c = (if is_upper c then c + 32 else c)"

fun is_isbn :: "ustring \<Rightarrow> bool" where
  \<comment> \<open>\<^verbatim>\<open>/^\d{3}-\d{3}-\d{3}-\d{1}$/.test(s)\<close>; 45 is the hyphen\<close>
  "is_isbn [a, b, c, h1, d, e, f, h2, g, h, i, h3, j] =
     (list_all is_digit [a, b, c, d, e, f, g, h, i, j] \<and> h1 = 45 \<and> h2 = 45 \<and> h3 = 45)"
| "is_isbn s = False"

subsection \<open>JavaScript values of a request\<close>

datatype jsval =
    JUndefined
  | JNull
  | JBool bool
  | JNum js_number
  | JStr ustring
  | JArr "jsval list"
  | JObj "(string \<times> jsval) list"

text \<open>A request is \<^verbatim>\<open>Record<string, any>\<close>: a finite map from field names to values.\<close>

type_synonym req = "string \<rightharpoonup> jsval"

definition has_field :: "string \<Rightarrow> req \<Rightarrow> bool" where
  \<comment> \<open>\<^verbatim>\<open>field in req\<close>\<close>
  "has_field field r = (r field \<noteq> None)"

definition get_field :: "req \<Rightarrow> string \<Rightarrow> jsval" where
  \<comment> \<open>\<^verbatim>\<open>req.field\<close>: \<^verbatim>\<open>undefined\<close> when the property is absent\<close>
  "get_field r field = (case r field of None \<Rightarrow> JUndefined | Some v \<Rightarrow> v)"

fun is_string :: "jsval \<Rightarrow> bool" where
  \<comment> \<open>\<^verbatim>\<open>typeof v === 'string'\<close>\<close>
  "is_string (JStr s) = True"
| "is_string v = False"

fun is_number :: "jsval \<Rightarrow> bool" where
  \<comment> \<open>\<^verbatim>\<open>typeof v === 'number'\<close>\<close>
  "is_number (JNum n) = True"
| "is_number v = False"

fun is_array :: "jsval \<Rightarrow> bool" where
  \<comment> \<open>\<^verbatim>\<open>Array.isArray(v)\<close>\<close>
  "is_array (JArr vs) = True"
| "is_array v = False"

fun falsy :: "jsval \<Rightarrow> bool" where
  \<comment> \<open>\<^verbatim>\<open>!v\<close>\<close>
  "falsy JUndefined = True"
| "falsy JNull = True"
| "falsy (JBool b) = (\<not> b)"
| "falsy (JNum (Num r)) = (r = 0)"
| "falsy (JNum NaN) = True"
| "falsy (JNum n) = False"
| "falsy (JStr s) = (s = [])"
| "falsy (JArr vs) = False"
| "falsy (JObj kvs) = False"

fun the_str :: "jsval \<Rightarrow> ustring" where
  "the_str (JStr s) = s"
| "the_str v = []"

fun the_arr :: "jsval \<Rightarrow> jsval list" where
  "the_arr (JArr vs) = vs"
| "the_arr v = []"

fun the_num :: "jsval \<Rightarrow> js_number" where
  "the_num (JNum n) = n"
| "the_num v = NaN"

subsection \<open>Persisted shapes and the store\<close>

text \<open>
  \<^verbatim>\<open>Lib.XBook\<close> and the DAO's \<^verbatim>\<open>Patron\<close> (its field \<^verbatim>\<open>id\<close> is named
  \<open>id_patron\<close> here, \<open>id\<close> being the identity function of HOL). \<^verbatim>\<open>pages\<close> is stored
  after \<^verbatim>\<open>Number.isInteger\<close> accepted it and is never computed with, so it is kept as
  an integer; \<^verbatim>\<open>year\<close> is stored after a range check only and stays a number.
\<close>

record XBook =
  isbn :: ustring
  title :: ustring
  authors :: "ustring list"
  publisher :: ustring
  pages :: int
  year :: js_number
  nCopies :: inum

record Patron =
  id_patron :: ustring
  checkedOutBooks :: "ustring list"

text \<open>
  The two collections, each a sequence of documents in insertion order. The unique
  indexes that \<^verbatim>\<open>LibraryDao.make\<close> creates are enforced by \<open>insertOne\<close> below.
\<close>

record store =
  booksCollection :: "XBook list"
  patronCollection :: "Patron list"

definition empty_store :: store where
  "empty_store = \<lparr>booksCollection = [], patronCollection = []\<rparr>"

subsection \<open>Store primitives used by the DAO\<close>

text \<open>Each primitive is one round trip to the store and takes effect at once.\<close>

definition findOne_book :: "ustring \<Rightarrow> XBook list \<Rightarrow> XBook option" where
  \<comment> \<open>\<^verbatim>\<open>booksCollection.findOne({ isbn })\<close>\<close>
  "findOne_book i bs = find (\<lambda>b. isbn b = i) bs"

definition findOne_patron :: "ustring \<Rightarrow> Patron list \<Rightarrow> Patron option" where
  \<comment> \<open>\<^verbatim>\<open>patronCollection.findOne({ id: patronId })\<close>\<close>
  "findOne_patron pid ps = find (\<lambda>p. id_patron p = pid) ps"

fun updateOne_inc :: "ustring \<Rightarrow> inum \<Rightarrow> XBook list \<Rightarrow> XBook list" where
  \<comment> \<open>\<^verbatim>\<open>booksCollection.updateOne({ isbn }, { $inc: { nCopies: d } })\<close>: the first match
      only, whatever its \<^verbatim>\<open>nCopies\<close>\<close>
  "updateOne_inc i d [] = []"
| "updateOne_inc i d (b # bs) =
     (if isbn b = i then b\<lparr>nCopies := inum_add (nCopies b) d\<rparr> # bs
      else b # updateOne_inc i d bs)"

definition matchedCount :: "ustring \<Rightarrow> XBook list \<Rightarrow> nat" where
  \<comment> \<open>\<^verbatim>\<open>updateResult.matchedCount\<close> of an \<^verbatim>\<open>updateOne\<close> filtered by isbn\<close>
  "matchedCount i bs = (if list_ex (\<lambda>b. isbn b = i) bs then 1 else 0)"

definition insertOne :: "XBook \<Rightarrow> XBook list \<Rightarrow> XBook list option" where
  \<comment> \<open>\<^verbatim>\<open>booksCollection.insertOne(book)\<close>: throws (None) on a duplicate key of the unique index\<close>
  "insertOne b bs = (if list_ex (\<lambda>b'. isbn b' = isbn b) bs then None else Some (bs @ [b]))"

definition addToSet :: "ustring \<Rightarrow> ustring list \<Rightarrow> ustring list" where
  \<comment> \<open>\<^verbatim>\<open>$addToSet\<close> on an array field\<close>
  "addToSet i xs = (if i \<in> set xs then xs else xs @ [i])"

fun updateOne_addToSet :: "ustring \<Rightarrow> ustring \<Rightarrow> Patron list \<Rightarrow> Patron list" where
  \<comment> \<open>\<^verbatim>\<open>patronCollection.updateOne({ id }, { $addToSet: { checkedOutBooks: isbn } }, { upsert: true })\<close>\<close>
  "updateOne_addToSet pid i [] = [\<lparr>id_patron = pid, checkedOutBooks = [i]\<rparr>]"
| "updateOne_addToSet pid i (p # ps) =
     (if id_patron p = pid then p\<lparr>checkedOutBooks := addToSet i (checkedOutBooks p)\<rparr> # ps
      else p # updateOne_addToSet pid i ps)"

fun updateOne_pull :: "ustring \<Rightarrow> ustring \<Rightarrow> Patron list \<Rightarrow> Patron list" where
  \<comment> \<open>\<^verbatim>\<open>patronCollection.updateOne({ id }, { $pull: { checkedOutBooks: isbn } })\<close>\<close>
  "updateOne_pull pid i [] = []"
| "updateOne_pull pid i (p # ps) =
     (if id_patron p = pid then p\<lparr>checkedOutBooks := filter (\<lambda>x. x \<noteq> i) (checkedOutBooks p)\<rparr> # ps
      else p # updateOne_pull pid i ps)"

text \<open>
  Two behaviours of the store are not in the repository and are parameters of the model:
  what the driver does with a \<^verbatim>\<open>skip\<close> or \<^verbatim>\<open>limit\<close> that is not a non-negative integer
  (None: the call throws), and whether the case-insensitive regular expression lets an
  ASCII letter of the pattern match a given code point outside ASCII.
\<close>

record engine =
  cursor_other :: "js_number \<Rightarrow> nat option"
  caseless_other :: "nat \<Rightarrow> nat \<Rightarrow> bool"

subsection \<open>The DAO (library-dao.ts)\<close>

text \<open>
  Every DAO method runs its store round trips inside one \<^verbatim>\<open>try\<close> block whose
  \<^verbatim>\<open>catch\<close> returns code DB. An infrastructure fault is modelled by the parameter
  \<open>fault\<close>: \<open>Some k\<close> makes the \<open>k\<close>-th round trip of the call (counted from 0) throw
  without touching the store, \<open>None\<close> lets every round trip through. The functions of
  this subsection run one call from its start to its return with no other call in
  between; calls that overlap are the subject of the subsection on await points.
\<close>

definition dao_addBook :: "nat option \<Rightarrow> XBook \<Rightarrow> store \<Rightarrow> XBook result \<times> store" where
  "dao_addBook fault book s =
     (if fault = Some 0 then (Inl DB, s)
      else if findOne_book (isbn book) (booksCollection s) \<noteq> None then
        (if fault = Some 1 then (Inl DB, s)
         else
           let s' = s\<lparr>booksCollection :=
                        updateOne_inc (isbn book) (nCopies book) (booksCollection s)\<rparr>
           in if matchedCount (isbn book) (booksCollection s) = 0 then (Inl DB, s')
              else (Inr book, s'))
      else
        (if fault = Some 1 then (Inl DB, s)
         else case insertOne book (booksCollection s) of
           None \<Rightarrow> (Inl DB, s)
         | Some bs \<Rightarrow> (Inr book, s\<lparr>booksCollection := bs\<rparr>)))"

text \<open>
  The query of \<^verbatim>\<open>findBooksBySearch\<close>: the words joined by \<^verbatim>\<open>.*\<close> form one regular
  expression, searched case-insensitively in the title or in any element of the authors
  array. The words come from \<^verbatim>\<open>/\w{2,}/g\<close>, so they hold no metacharacter; \<^verbatim>\<open>.\<close>
  matches any code point but the line feed.
\<close>

definition ci_eq :: "engine \<Rightarrow> nat \<Rightarrow> nat \<Rightarrow> bool" where
  \<comment> \<open>the pattern's code point \<open>c\<close> (a word character) matches the text's code point \<open>d\<close>\<close>
  "ci_eq eng c d = (if d < 128 then to_lower c = to_lower d else caseless_other eng c d)"

fun ci_prefix :: "engine \<Rightarrow> ustring \<Rightarrow> ustring \<Rightarrow> bool" where
  \<comment> \<open>the word matches at the start of the text, ignoring case\<close>
  "ci_prefix eng [] s = True"
| "ci_prefix eng (c # w) [] = False"
| "ci_prefix eng (c # w) (d # s) = (ci_eq eng c d \<and> ci_prefix eng w s)"

fun dot_star :: "ustring \<Rightarrow> ustring list" where
  \<comment> \<open>the texts left after \<^verbatim>\<open>.*\<close> has consumed some prefix free of line feeds\<close>
  "dot_star [] = [[]]"
| "dot_star (c # s) = (c # s) # (if c = 10 then [] else dot_star s)"

fun regex_seq :: "engine \<Rightarrow> ustring list \<Rightarrow> ustring \<Rightarrow> bool" where
  \<comment> \<open>\<^verbatim>\<open>w1.*w2.* ... .*wn\<close> matches at the start of the text\<close>
  "regex_seq eng [] s = True"
| "regex_seq eng (w # ws) s =
     (ci_prefix eng w s \<and> list_ex (regex_seq eng ws) (dot_star (drop (length w) s)))"

fun suffixes_of :: "ustring \<Rightarrow> ustring list" where
  "suffixes_of [] = [[]]"
| "suffixes_of (c # s) = (c # s) # suffixes_of s"

definition regex_search :: "engine \<Rightarrow> ustring list \<Rightarrow> ustring \<Rightarrow> bool" where
  \<comment> \<open>\<^verbatim>\<open>{ $regex: words.join('.*'), $options: 'i' }\<close> applied to one string\<close>
  "regex_search eng ws s = list_ex (regex_seq eng ws) (suffixes_of s)"

definition query_matches :: "engine \<Rightarrow> ustring list \<Rightarrow> XBook \<Rightarrow> bool" where
  \<comment> \<open>the \<^verbatim>\<open>$or\<close> of the regex on \<^verbatim>\<open>title\<close> and on \<^verbatim>\<open>authors\<close>\<close>
  "query_matches eng ws b =
     (regex_search eng ws (title b) \<or> list_ex (regex_search eng ws) (authors b))"

definition cursor_limit :: "nat \<Rightarrow> 'a list \<Rightarrow> 'a list" where
  \<comment> \<open>\<^verbatim>\<open>.limit(n)\<close>: in MongoDB a limit of 0 is no limit\<close>
  "cursor_limit n xs = (if n = 0 then xs else take n xs)"

definition cursor_arg :: "engine \<Rightarrow> js_number \<Rightarrow> nat option" where
  \<comment> \<open>the count that \<^verbatim>\<open>.skip(x)\<close> or \<^verbatim>\<open>.limit(x)\<close> uses: \<open>x\<close> itself when it is a
      non-negative integer, else what the driver makes of it\<close>
  "cursor_arg eng x =
     (if num_is_integer x \<and> num_le (Num 0) x then Some (nat (num_to_int x))
      else cursor_other eng x)"

definition dao_findBooksBySearch ::
  "engine \<Rightarrow> nat option \<Rightarrow> ustring list \<Rightarrow> js_number \<Rightarrow> js_number \<Rightarrow> store
     \<Rightarrow> XBook list result" where
  \<comment> \<open>find, then sort by title, then skip, then limit: the order in which a cursor applies
      them, whatever the order of the builder calls; the store sorts strings by their
      UTF-8 bytes, which is the order of the code point lists\<close>
  "dao_findBooksBySearch eng fault searchWords index count s =
     (case (cursor_arg eng index, cursor_arg eng count) of
        (Some sk, Some lm) \<Rightarrow>
          if fault = Some 0 then Inl DB
          else Inr (cursor_limit lm (drop sk
                 (sort_key title (filter (query_matches eng searchWords) (booksCollection s)))))
      | _ \<Rightarrow> Inl DB)"

definition dao_checkoutBook :: "nat option \<Rightarrow> ustring \<Rightarrow> ustring \<Rightarrow> store \<Rightarrow> unit result \<times> store" where
  "dao_checkoutBook fault patronId i s =
     (if fault = Some 0 then (Inl DB, s)
      else case findOne_book i (booksCollection s) of
        None \<Rightarrow> (Inl BAD_REQ, s)
      | Some book \<Rightarrow>
          if inum_le0 (nCopies book) then (Inl BAD_REQ, s)
          else if fault = Some 1 then (Inl DB, s)
          else if (case findOne_patron patronId (patronCollection s) of
                     None \<Rightarrow> False
                   | Some patron \<Rightarrow> i \<in> set (checkedOutBooks patron))
            then (Inl BAD_REQ, s)
          else if fault = Some 2 then (Inl DB, s)
          else
            let s1 = s\<lparr>booksCollection := updateOne_inc i (Fin (- 1)) (booksCollection s)\<rparr>
            in if fault = Some 3 then (Inl DB, s1)
               else (Inr (), s1\<lparr>patronCollection :=
                                  updateOne_addToSet patronId i (patronCollection s1)\<rparr>))"

definition dao_returnBook :: "nat option \<Rightarrow> ustring \<Rightarrow> ustring \<Rightarrow> store \<Rightarrow> unit result \<times> store" where
  "dao_returnBook fault patronId i s =
     (if fault = Some 0 then (Inl DB, s)
      else case findOne_patron patronId (patronCollection s) of
        None \<Rightarrow> (Inl BAD_REQ, s)
      | Some patron \<Rightarrow>
          if i \<notin> set (checkedOutBooks patron) then (Inl BAD_REQ, s)
          else if fault = Some 1 then (Inl DB, s)
          else
            let s1 = s\<lparr>booksCollection := updateOne_inc i (Fin 1) (booksCollection s)\<rparr>
            in if fault = Some 2 then (Inl DB, s1)
               else (Inr (), s1\<lparr>patronCollection :=
                                  updateOne_pull patronId i (patronCollection s1)\<rparr>))"

definition dao_clearDatabase :: "nat option \<Rightarrow> store \<Rightarrow> unit result \<times> store" where
  "dao_clearDatabase fault s =
     (if fault = Some 0 then (Inl DB, s)
      else
        let s1 = s\<lparr>booksCollection := []\<rparr>
        in if fault = Some 1 then (Inl DB, s1)
           else (Inr (), s1\<lparr>patronCollection := []\<rparr>))"

subsection \<open>The service (lending-library.ts)\<close>

definition requiredFields :: "string list" where
  "requiredFields =
     [''isbn'', ''title'', ''pages'', ''authors'', ''publisher'', ''year'', ''nCopies'']"

definition DEFAULT_COUNT :: real where
  "DEFAULT_COUNT = 5"

definition validate_addBook :: "int \<Rightarrow> req \<Rightarrow> XBook result" where
  \<comment> \<open>lines 60 to 112 of \<^verbatim>\<open>addBook\<close>: the checks in their order, then the book that is
      handed to the DAO; \<open>currentYear\<close> is \<^verbatim>\<open>new Date().getFullYear()\<close>\<close>
  "validate_addBook currentYear r =
     (if \<not> list_all (\<lambda>field. has_field field r) requiredFields then Inl MISSING
      else if \<not> is_string (get_field r ''isbn'') then Inl BAD_TYPE
      else if \<not> is_isbn (the_str (get_field r ''isbn'')) then Inl BAD_REQ
      else if \<not> is_string (get_field r ''title'') then Inl BAD_TYPE
      else if trim_is_empty (the_str (get_field r ''title'')) then Inl BAD_REQ
      else if \<not> is_number (get_field r ''pages'')
              \<or> \<not> num_is_integer (the_num (get_field r ''pages''))
              \<or> num_le (the_num (get_field r ''pages'')) (Num 0) then Inl BAD_TYPE
      else if \<not> is_array (get_field r ''authors'') then Inl BAD_TYPE
      else if the_arr (get_field r ''authors'') = []
              \<or> list_ex (\<lambda>a. \<not> is_string a \<or> trim_is_empty (the_str a))
                   (the_arr (get_field r ''authors'')) then Inl BAD_REQ
      else if \<not> is_string (get_field r ''publisher'') then Inl BAD_TYPE
      else if trim_is_empty (the_str (get_field r ''publisher'')) then Inl BAD_REQ
      else if \<not> is_number (get_field r ''year'') then Inl BAD_TYPE
      else if num_less (the_num (get_field r ''year'')) (Num 1448)
              \<or> num_less (Num (of_int currentYear)) (the_num (get_field r ''year''))
        then Inl BAD_REQ
      else if \<not> is_number (get_field r ''nCopies'')
              \<or> \<not> num_is_integer (the_num (get_field r ''nCopies''))
              \<or> num_le (the_num (get_field r ''nCopies'')) (Num 0) then Inl BAD_TYPE
      else Inr \<lparr>isbn = the_str (get_field r ''isbn''),
                title = the_str (get_field r ''title''),
                authors = map the_str (the_arr (get_field r ''authors'')),
                publisher = the_str (get_field r ''publisher''),
                pages = num_to_int (the_num (get_field r ''pages'')),
                year = the_num (get_field r ''year''),
                nCopies = Fin (num_to_int (the_num (get_field r ''nCopies'')))\<rparr>)"

definition addBook :: "int \<Rightarrow> nat option \<Rightarrow> req \<Rightarrow> store \<Rightarrow> XBook result \<times> store" where
  \<comment> \<open>\<^verbatim>\<open>LendingLibrary.addBook\<close>: the DAO's result is returned as it is\<close>
  "addBook currentYear fault r s =
     (case validate_addBook currentYear r of
        Inl e \<Rightarrow> (Inl e, s)
      | Inr book \<Rightarrow> dao_addBook fault book s)"

fun words_from :: "ustring \<Rightarrow> ustring \<Rightarrow> ustring list" where
  \<comment> \<open>the maximal runs of word characters of length at least 2, left to right; the first
      argument is the run read so far\<close>
  "words_from run [] = (if 2 \<le> length run then [run] else [])"
| "words_from run (c # cs) =
     (if is_word_char c then words_from (run @ [c]) cs
      else (if 2 \<le> length run then [run] else []) @ words_from [] cs)"

definition search_words :: "ustring \<Rightarrow> ustring list" where
  \<comment> \<open>\<^verbatim>\<open>search.match(/\w{2,}/g) || []\<close>\<close>
  "search_words search = words_from [] search"

definition findBooks :: "engine \<Rightarrow> nat option \<Rightarrow> req \<Rightarrow> store \<Rightarrow> XBook list result" where
  \<comment> \<open>\<^verbatim>\<open>LendingLibrary.findBooks\<close>\<close>
  "findBooks eng fault r s =
     (if falsy (get_field r ''search'') \<or> \<not> is_string (get_field r ''search'') then Inl MISSING
      else
        let index = (if is_number (get_field r ''index'')
                        \<and> num_le (Num 0) (the_num (get_field r ''index''))
                     then the_num (get_field r ''index'') else Num 0);
            count = (if is_number (get_field r ''count'')
                        \<and> num_le (Num 0) (the_num (get_field r ''count''))
                     then the_num (get_field r ''count'') else Num DEFAULT_COUNT);
            searchWords = search_words (the_str (get_field r ''search''))
        in if searchWords = [] then Inl BAD_REQ
           else dao_findBooksBySearch eng fault searchWords index count s)"

definition checkoutBook :: "nat option \<Rightarrow> req \<Rightarrow> store \<Rightarrow> unit result \<times> store" where
  \<comment> \<open>\<^verbatim>\<open>LendingLibrary.checkoutBook\<close>: every DAO result that is not ok becomes BAD_REQ\<close>
  "checkoutBook fault r s =
     (if falsy (get_field r ''patronId'') \<or> \<not> is_string (get_field r ''patronId'')
        then (Inl MISSING, s)
      else if falsy (get_field r ''isbn'') \<or> \<not> is_string (get_field r ''isbn'')
        then (Inl MISSING, s)
      else case dao_checkoutBook fault (the_str (get_field r ''patronId''))
                  (the_str (get_field r ''isbn'')) s of
             (Inl e, s') \<Rightarrow> (Inl BAD_REQ, s')
           | (Inr u, s') \<Rightarrow> (Inr (), s'))"

definition returnBook :: "nat option \<Rightarrow> req \<Rightarrow> store \<Rightarrow> unit result \<times> store" where
  \<comment> \<open>\<^verbatim>\<open>LendingLibrary.returnBook\<close>: every DAO result that is not ok becomes BAD_REQ\<close>
  "returnBook fault r s =
     (if falsy (get_field r ''patronId'') \<or> \<not> is_string (get_field r ''patronId'')
        then (Inl MISSING, s)
      else if falsy (get_field r ''isbn'') \<or> \<not> is_string (get_field r ''isbn'')
        then (Inl MISSING, s)
      else case dao_returnBook fault (the_str (get_field r ''patronId''))
                  (the_str (get_field r ''isbn'')) s of
             (Inl e, s') \<Rightarrow> (Inl BAD_REQ, s')
           | (Inr u, s') \<Rightarrow> (Inr (), s'))"

definition clear :: "nat option \<Rightarrow> store \<Rightarrow> unit result \<times> store" where
  \<comment> \<open>\<^verbatim>\<open>LendingLibrary.clear\<close>: the DAO's result is dropped, the DAO never throws\<close>
  "clear fault s = (Inr (), snd (dao_clearDatabase fault s))"

definition num_neq :: "js_number \<Rightarrow> js_number \<Rightarrow> bool" where
  \<comment> \<open>\<^verbatim>\<open>a !== b\<close> on numbers: NaN differs from everything, itself included\<close>
  "num_neq a b = (a = NaN \<or> b = NaN \<or> a \<noteq> b)"

definition nth_opt :: "'a list \<Rightarrow> nat \<Rightarrow> 'a option" where
  \<comment> \<open>\<^verbatim>\<open>xs[i]\<close>: \<^verbatim>\<open>undefined\<close> (None) out of range\<close>
  "nth_opt xs k = (if k < length xs then Some (xs ! k) else None)"

definition compareBook :: "XBook \<Rightarrow> XBook \<Rightarrow> string option" where
  \<comment> \<open>\<^verbatim>\<open>compareBook\<close> of lending-library.ts; no function of either file calls it\<close>
  "compareBook book0 book1 =
     (if title book0 \<noteq> title book1 then Some ''title''
      else if list_ex (\<lambda>(a, k). nth_opt (authors book1) k \<noteq> Some a)
                (zip (authors book0) [0 ..< length (authors book0)]) then Some ''authors''
      else if pages book0 \<noteq> pages book1 then Some ''pages''
      else if num_neq (year book0) (year book1) then Some ''year''
      else if publisher book0 \<noteq> publisher book1 then Some ''publisher''
      else None)"

subsection \<open>Await points: calls that overlap\<close>

text \<open>
  Every method of the DAO is \<^verbatim>\<open>async\<close> and awaits each of its store round trips. While
  a call waits, the event loop runs other calls, so the round trips of several calls
  interleave; each round trip itself is one atomic operation of the store. A \<open>point\<close>
  is a place where a DAO call waits: it names the round trip that comes next and holds
  the variables the rest of the method uses.
\<close>

datatype point =
    AddBook_findOne XBook
  | AddBook_updateOne XBook
  | AddBook_insertOne XBook
  | FindBooks_find "ustring list" js_number js_number
  | Checkout_findBook ustring ustring
  | Checkout_findPatron ustring ustring
  | Checkout_inc ustring ustring
  | Checkout_addToSet ustring ustring
  | Return_findPatron ustring ustring
  | Return_inc ustring ustring
  | Return_pull ustring ustring
  | Clear_books
  | Clear_patrons

datatype progress = Return "unit result" | Await point

text \<open>
  \<open>dao_step\<close> performs the round trip of a point (or lets it throw, when \<open>fault\<close> holds)
  and runs the method up to its next await or to its return. Only whether the method
  returned ok or which error code is kept of its result.
\<close>

fun dao_step :: "engine \<Rightarrow> bool \<Rightarrow> point \<Rightarrow> store \<Rightarrow> progress \<times> store" where
  "dao_step eng fault (AddBook_findOne book) s =
     (if fault then (Return (Inl DB), s)
      else if findOne_book (isbn book) (booksCollection s) \<noteq> None
        then (Await (AddBook_updateOne book), s)
      else (Await (AddBook_insertOne book), s))"
| "dao_step eng fault (AddBook_updateOne book) s =
     (if fault then (Return (Inl DB), s)
      else
        let s' = s\<lparr>booksCollection :=
                     updateOne_inc (isbn book) (nCopies book) (booksCollection s)\<rparr>
        in if matchedCount (isbn book) (booksCollection s) = 0 then (Return (Inl DB), s')
           else (Return (Inr ()), s'))"
| "dao_step eng fault (AddBook_insertOne book) s =
     (if fault then (Return (Inl DB), s)
      else case insertOne book (booksCollection s) of
        None \<Rightarrow> (Return (Inl DB), s)
      | Some bs \<Rightarrow> (Return (Inr ()), s\<lparr>booksCollection := bs\<rparr>))"
| "dao_step eng fault (FindBooks_find searchWords index count) s =
     (case dao_findBooksBySearch eng (if fault then Some 0 else None) searchWords index count s of
        Inl e \<Rightarrow> (Return (Inl e), s)
      | Inr books \<Rightarrow> (Return (Inr ()), s))"
| "dao_step eng fault (Checkout_findBook patronId i) s =
     (if fault then (Return (Inl DB), s)
      else case findOne_book i (booksCollection s) of
        None \<Rightarrow> (Return (Inl BAD_REQ), s)
      | Some book \<Rightarrow>
          if inum_le0 (nCopies book) then (Return (Inl BAD_REQ), s)
          else (Await (Checkout_findPatron patronId i), s))"
| "dao_step eng fault (Checkout_findPatron patronId i) s =
     (if fault then (Return (Inl DB), s)
      else if (case findOne_patron patronId (patronCollection s) of
                 None \<Rightarrow> False
               | Some patron \<Rightarrow> i \<in> set (checkedOutBooks patron))
        then (Return (Inl BAD_REQ), s)
      else (Await (Checkout_inc patronId i), s))"
| "dao_step eng fault (Checkout_inc patronId i) s =
     (if fault then (Return (Inl DB), s)
      else (Await (Checkout_addToSet patronId i),
            s\<lparr>booksCollection := updateOne_inc i (Fin (- 1)) (booksCollection s)\<rparr>))"
| "dao_step eng fault (Checkout_addToSet patronId i) s =
     (if fault then (Return (Inl DB), s)
      else (Return (Inr ()),
            s\<lparr>patronCollection := updateOne_addToSet patronId i (patronCollection s)\<rparr>))"
| "dao_step eng fault (Return_findPatron patronId i) s =
     (if fault then (Return (Inl DB), s)
      else case findOne_patron patronId (patronCollection s) of
        None \<Rightarrow> (Return (Inl BAD_REQ), s)
      | Some patron \<Rightarrow>
          if i \<notin> set (checkedOutBooks patron) then (Return (Inl BAD_REQ), s)
          else (Await (Return_inc patronId i), s))"
| "dao_step eng fault (Return_inc patronId i) s =
     (if fault then (Return (Inl DB), s)
      else (Await (Return_pull patronId i),
            s\<lparr>booksCollection := updateOne_inc i (Fin 1) (booksCollection s)\<rparr>))"
| "dao_step eng fault (Return_pull patronId i) s =
     (if fault then (Return (Inl DB), s)
      else (Return (Inr ()),
            s\<lparr>patronCollection := updateOne_pull patronId i (patronCollection s)\<rparr>))"
| "dao_step eng fault Clear_books s =
     (if fault then (Return (Inl DB), s)
      else (Await Clear_patrons, s\<lparr>booksCollection := []\<rparr>))"
| "dao_step eng fault Clear_patrons s =
     (if fault then (Return (Inl DB), s)
      else (Return (Inr ()), s\<lparr>patronCollection := []\<rparr>))"

text \<open>
  A call of the service: the method runs its checks at once and either answers or waits
  in the DAO; when the DAO returns, the method turns the DAO's result into its answer.
\<close>

datatype svc = Svc_addBook | Svc_findBooks | Svc_checkoutBook | Svc_returnBook | Svc_clear

datatype call = Answered "unit result" | Pending svc point

datatype op =
    AddBook int req
  | FindBooks req
  | CheckoutBook req
  | ReturnBook req
  | Clear

fun invoke :: "op \<Rightarrow> call" where
  \<comment> \<open>the part of a service method before its call of the DAO; the number of
      \<open>AddBook\<close> is the calendar year at the time of the call\<close>
  "invoke (AddBook currentYear r) =
     (case validate_addBook currentYear r of
        Inl e \<Rightarrow> Answered (Inl e)
      | Inr book \<Rightarrow> Pending Svc_addBook (AddBook_findOne book))"
| "invoke (FindBooks r) =
     (if falsy (get_field r ''search'') \<or> \<not> is_string (get_field r ''search'')
        then Answered (Inl MISSING)
      else
        let index = (if is_number (get_field r ''index'')
                        \<and> num_le (Num 0) (the_num (get_field r ''index''))
                     then the_num (get_field r ''index'') else Num 0);
            count = (if is_number (get_field r ''count'')
                        \<and> num_le (Num 0) (the_num (get_field r ''count''))
                     then the_num (get_field r ''count'') else Num DEFAULT_COUNT);
            searchWords = search_words (the_str (get_field r ''search''))
        in if searchWords = [] then Answered (Inl BAD_REQ)
           else Pending Svc_findBooks (FindBooks_find searchWords index count))"
| "invoke (CheckoutBook r) =
     (if falsy (get_field r ''patronId'') \<or> \<not> is_string (get_field r ''patronId'')
        then Answered (Inl MISSING)
      else if falsy (get_field r ''isbn'') \<or> \<not> is_string (get_field r ''isbn'')
        then Answered (Inl MISSING)
      else Pending Svc_checkoutBook
             (Checkout_findBook (the_str (get_field r ''patronId''))
                (the_str (get_field r ''isbn''))))"
| "invoke (ReturnBook r) =
     (if falsy (get_field r ''patronId'') \<or> \<not> is_string (get_field r ''patronId'')
        then Answered (Inl MISSING)
      else if falsy (get_field r ''isbn'') \<or> \<not> is_string (get_field r ''isbn'')
        then Answered (Inl MISSING)
      else Pending Svc_returnBook
             (Return_findPatron (the_str (get_field r ''patronId''))
                (the_str (get_field r ''isbn''))))"
| "invoke Clear = Pending Svc_clear Clear_books"

fun svc_reply :: "svc \<Rightarrow> unit result \<Rightarrow> unit result" where
  \<comment> \<open>the part of a service method after its call of the DAO\<close>
  "svc_reply Svc_checkoutBook (Inl e) = Inl BAD_REQ"
| "svc_reply Svc_returnBook (Inl e) = Inl BAD_REQ"
| "svc_reply Svc_clear r = Inr ()"
| "svc_reply v r = r"

text \<open>
  The system: the store and the calls made so far, in the order of their invocation. An
  event either invokes a method or lets the round trip of one waiting call happen.
\<close>

record config =
  db :: store
  calls :: "call list"

definition start :: config where
  "start = \<lparr>db = empty_store, calls = []\<rparr>"

datatype event = Invoke op | Resume nat bool

fun sys_step :: "engine \<Rightarrow> event \<Rightarrow> config \<Rightarrow> config" where
  "sys_step eng (Invoke x) c = c\<lparr>calls := calls c @ [invoke x]\<rparr>"
| "sys_step eng (Resume j fault) c =
     (if j < length (calls c) then
        (case calls c ! j of
           Answered r \<Rightarrow> c
         | Pending v p \<Rightarrow>
             (case dao_step eng fault p (db c) of
                (Return r, s') \<Rightarrow> \<lparr>db = s', calls = (calls c)[j := Answered (svc_reply v r)]\<rparr>
              | (Await p', s') \<Rightarrow> \<lparr>db = s', calls = (calls c)[j := Pending v p']\<rparr>))
      else c)"

fun sys_run :: "engine \<Rightarrow> event list \<Rightarrow> config \<Rightarrow> config" where
  "sys_run eng [] c = c"
| "sys_run eng (e # es) c = sys_run eng es (sys_step eng e c)"

definition alone :: "nat option \<Rightarrow> op \<Rightarrow> event list" where
  \<comment> \<open>one call from its invocation to its answer with nothing in between; no method has
      more than four round trips, and resuming an answered call does nothing\<close>
  "alone fault x = Invoke x # map (\<lambda>k. Resume 0 (fault = Some k)) [0, 1, 2, 3]"

subsection \<open>The matching rule in the words of the documentation\<close>

text \<open>
  The doc comment of \<^verbatim>\<open>findBooks\<close> asks for the books whose authors and title fields
  contain all the words of the search, case-insensitively. This predicate follows those
  words; it is compared with \<open>query_matches\<close>, which follows the code.
\<close>

definition ci_substring :: "engine \<Rightarrow> ustring \<Rightarrow> ustring \<Rightarrow> bool" where
  "ci_substring eng w s = list_ex (ci_prefix eng w) (suffixes_of s)"

definition doc_matches :: "engine \<Rightarrow> ustring list \<Rightarrow> XBook \<Rightarrow> bool" where
  "doc_matches eng ws b =
     list_all (\<lambda>w. ci_substring eng w (title b) \<or> list_ex (ci_substring eng w) (authors b)) ws"

subsection \<open>Sample data\<close>

definition hobbit_isbn :: ustring where
  "hobbit_isbn = str ''123-456-789-0''"

definition hobbit :: XBook where
  "hobbit = \<lparr>isbn = hobbit_isbn, title = str ''The Hobbit'',
              authors = [str ''J.R.R. Tolkien''], publisher = str ''Allen and Unwin'',
              pages = 310, year = Num 1937, nCopies = Fin 2\<rparr>"

definition hobbit_req :: req where
  "hobbit_req =
     [''isbn'' \<mapsto> JStr hobbit_isbn, ''title'' \<mapsto> JStr (str ''The Hobbit''),
      ''pages'' \<mapsto> JNum (Num 310), ''authors'' \<mapsto> JArr [JStr (str ''J.R.R. Tolkien'')],
      ''publisher'' \<mapsto> JStr (str ''Allen and Unwin''), ''year'' \<mapsto> JNum (Num 1937),
      ''nCopies'' \<mapsto> JNum (Num 2)]"

definition hobbit_store :: store where
  "hobbit_store = \<lparr>booksCollection = [hobbit], patronCollection = []\<rparr>"

definition lend_req :: req where
  "lend_req = [''patronId'' \<mapsto> JStr (str ''p1''), ''isbn'' \<mapsto> JStr hobbit_isbn]"

definition lend_req2 :: req where
  "lend_req2 = [''patronId'' \<mapsto> JStr (str ''p2''), ''isbn'' \<mapsto> JStr hobbit_isbn]"

definition emma_isbn :: ustring where
  "emma_isbn = str ''111-222-333-4''"

definition emma :: XBook where
  "emma = \<lparr>isbn = emma_isbn, title = str ''Emma'', authors = [str ''Jane Austen''],
            publisher = str ''John Murray'', pages = 474, year = Num 1815, nCopies = Fin 1\<rparr>"

definition emma_req :: req where
  "emma_req =
     [''isbn'' \<mapsto> JStr emma_isbn, ''title'' \<mapsto> JStr (str ''Emma''),
      ''pages'' \<mapsto> JNum (Num 474), ''authors'' \<mapsto> JArr [JStr (str ''Jane Austen'')],
      ''publisher'' \<mapsto> JStr (str ''John Murray''), ''year'' \<mapsto> JNum (Num 1815),
      ''nCopies'' \<mapsto> JNum (Num 1)]"

definition lend_emma_req :: req where
  "lend_emma_req = [''patronId'' \<mapsto> JStr (str ''p1''), ''isbn'' \<mapsto> JStr emma_isbn]"

definition p1_holding :: Patron where
  "p1_holding = \<lparr>id_patron = str ''p1'', checkedOutBooks = [hobbit_isbn]\<rparr>"

definition p2_holding :: Patron where
  "p2_holding = \<lparr>id_patron = str ''p2'', checkedOutBooks = [hobbit_isbn]\<rparr>"

definition last_copy_race :: "event list" where
  \<comment> \<open>one copy of The Hobbit is added; then p1 and p2 each start a checkout, both read
      the book before either decrements, and both run to their end\<close>
  "last_copy_race =
     [Invoke (AddBook 2024 (hobbit_req(''nCopies'' \<mapsto> JNum (Num 1)))),
      Resume 0 False, Resume 0 False,
      Invoke (CheckoutBook lend_req), Invoke (CheckoutBook lend_req2),
      Resume 1 False, Resume 2 False,
      Resume 1 False, Resume 1 False, Resume 1 False,
      Resume 2 False, Resume 2 False, Resume 2 False]"

definition same_patron_race :: "event list" where
  \<comment> \<open>The Hobbit (2 copies) and Emma are added; p1 starts two checkouts of The Hobbit
      that both pass the already-holds test before either writes; then p1 checks out Emma\<close>
  "same_patron_race =
     [Invoke (AddBook 2024 hobbit_req), Resume 0 False, Resume 0 False,
      Invoke (AddBook 2024 emma_req), Resume 1 False, Resume 1 False,
      Invoke (CheckoutBook lend_req), Invoke (CheckoutBook lend_req),
      Resume 2 False, Resume 3 False, Resume 2 False, Resume 3 False,
      Resume 2 False, Resume 3 False, Resume 2 False, Resume 3 False,
      Invoke (CheckoutBook lend_emma_req),
      Resume 4 False, Resume 4 False, Resume 4 False, Resume 4 False]"

definition big_req :: req where
  \<comment> \<open>9007199254740994 is \<open>2^53 + 2\<close>, a double\<close>
  "big_req = hobbit_req(''nCopies'' \<mapsto> JNum (Num 9007199254740994))"

definition huge :: int where
  \<comment> \<open>a double: in JavaScript \<^verbatim>\<open>2 ** 1023\<close>, about 8.99e307\<close>
  "huge = 2 ^ 1023"

definition huge_req :: req where
  "huge_req = hobbit_req(''nCopies'' \<mapsto> JNum (Num (of_int huge)))"

subsection \<open>Predicates on the store\<close>

fun inum_negative :: "inum \<Rightarrow> bool" where
  \<comment> \<open>\<^verbatim>\<open>a < 0\<close>\<close>
  "inum_negative (Fin a) = (a < 0)"
| "inum_negative NegInf = True"
| "inum_negative x = False"

definition copies_nonneg :: "store \<Rightarrow> bool" where
  "copies_nonneg s = (\<forall>b \<in> set (booksCollection s). \<not> inum_negative (nCopies b))"

definition holds_distinct :: "store \<Rightarrow> bool" where
  "holds_distinct s = (\<forall>p \<in> set (patronCollection s). distinct (checkedOutBooks p))"

definition held :: "ustring \<Rightarrow> store \<Rightarrow> ustring list" where
  \<comment> \<open>the \<^verbatim>\<open>checkedOutBooks\<close> of the patron's record; empty when there is no record\<close>
  "held pid s =
     (case findOne_patron pid (patronCollection s) of
        None \<Rightarrow> []
      | Some p \<Rightarrow> checkedOutBooks p)"

definition sample_engine :: engine where
  \<comment> \<open>one choice of the store's parameters: the driver throws on any other
      \<^verbatim>\<open>skip\<close> or \<^verbatim>\<open>limit\<close>, and no ASCII letter matches a code point outside ASCII\<close>
  "sample_engine = \<lparr>cursor_other = (\<lambda>x. None), caseless_other = (\<lambda>c d. False)\<rparr>"

definition one_left :: store where
  \<comment> \<open>p1 holds The Hobbit and one copy of it is left\<close>
  "one_left = \<lparr>booksCollection = [hobbit\<lparr>nCopies := Fin 1\<rparr>], patronCollection = [p1_holding]\<rparr>"

section \<open>Properties\<close>

subsection \<open>Rounding to a double\<close>

declare ulp.simps [simp del]

lemma ulp_small: "n < 2 ^ 53 \<Longrightarrow> ulp n = 1"
  by (subst ulp.simps) simp

lemma ulp_large: "2 ^ 53 \<le> n \<Longrightarrow> ulp n = 2 * ulp (n div 2)"
  by (subst ulp.simps) simp

lemma ulp_pos: "0 < ulp n"
  by (induction n rule: ulp.induct) (subst ulp.simps, auto)

lemma round_nat_exact: "ulp n dvd n \<Longrightarrow> round_nat n = n"
  using ulp_pos[of n] by (auto simp: round_nat_def Let_def)

lemma round_nat_dvd: "ulp n dvd round_nat n"
  by (simp add: round_nat_def Let_def)

lemma round_nat_safe: "n \<le> 2 ^ 53 \<Longrightarrow> round_nat n = n"
proof (cases "n < 2 ^ 53")
  case True
  then show ?thesis by (simp add: round_nat_exact ulp_small)
next
  case False
  assume "n \<le> 2 ^ 53"
  with False have n: "n = 2 ^ 53" by simp
  have "ulp n = 2" unfolding n by (simp add: ulp_large ulp_small)
  then show ?thesis using n by (simp add: round_nat_exact)
qed

lemma round_double_safe: "\<bar>z\<bar> \<le> 2 ^ 53 \<Longrightarrow> round_double z = Fin z"
proof -
  assume a: "\<bar>z\<bar> \<le> 2 ^ 53"
  then have "nat \<bar>z\<bar> \<le> 2 ^ 53" by (simp add: nat_le_iff)
  then have r: "round_nat (nat \<bar>z\<bar>) = nat \<bar>z\<bar>" by (rule round_nat_safe)
  have "nat \<bar>z\<bar> < 2 ^ 1024" using a by (simp add: nat_less_iff)
  then show ?thesis using r by (simp add: round_double_def Let_def)
qed

lemma ulp_double: "ulp (2 * n) = (if 2 * n < 2 ^ 53 then 1 else 2 * ulp n)"
  by (subst ulp.simps) simp

lemma round_nat_double: "round_nat n = n \<Longrightarrow> round_nat (2 * n) = 2 * n"
proof -
  assume "round_nat n = n"
  then have "ulp n dvd n" using round_nat_dvd[of n] by simp
  then have "ulp (2 * n) dvd 2 * n"
    by (auto simp: ulp_double)
  then show ?thesis by (rule round_nat_exact)
qed

lemma ulp_pow2: "ulp (2 ^ (53 + j)) = 2 ^ Suc j"
proof (induction j)
  case 0
  then show ?case by (simp add: ulp_large ulp_small)
next
  case (Suc j)
  have eq: "(2::nat) ^ (53 + Suc j) = 2 * 2 ^ (53 + j)"
    by (simp only: add_Suc_right power_Suc)
  have "(2::nat) ^ 53 \<le> 2 ^ (53 + j)"
    by (rule power_increasing) simp_all
  then have "\<not> 2 * (2::nat) ^ (53 + j) < 2 ^ 53"
    by linarith
  then have "ulp (2 * 2 ^ (53 + j)) = 2 * ulp (2 ^ (53 + j))"
    by (simp only: ulp_double if_False)
  with eq Suc show ?case by (simp only: power_Suc)
qed

lemma is_double_double:
  assumes "is_double k" and "0 < k" and "k < 2 ^ 1023"
  shows "round_double (k + k) = Fin (2 * k)"
proof -
  have fin: "round_double k = Fin k"
    using assms(1) by (simp add: is_double_def)
  have "round_nat (nat k) = nat k"
  proof (cases "2 ^ 1024 \<le> round_nat (nat \<bar>k\<bar>)")
    case True
    then show ?thesis using fin assms(2) by (simp add: round_double_def Let_def)
  next
    case False
    then show ?thesis using fin assms(2) by (simp add: round_double_def Let_def)
  qed
  then have "round_nat (2 * nat k) = 2 * nat k"
    by (rule round_nat_double)
  moreover have "nat \<bar>k + k\<bar> = 2 * nat k"
    using assms(2) by simp
  moreover have "2 * nat k < 2 ^ 1024"
    using assms(2,3) by (simp add: nat_less_iff)
  ultimately show ?thesis
    using assms(2) by (simp add: round_double_def Let_def)
qed

lemma round_double_sign: "0 \<le> z \<Longrightarrow> \<not> inum_negative (round_double z)"
  by (simp add: round_double_def Let_def)

lemma huge_pos: "0 < huge"
  by (simp add: huge_def)

lemma is_double_huge: "is_double huge"
proof -
  have "ulp (2 ^ (53 + 970)) = 2 ^ Suc 970" by (rule ulp_pow2)
  then have u: "ulp (2 ^ 1023) = 2 ^ 971" by simp
  have "round_nat (2 ^ 1023) = 2 ^ 1023"
    using u by (intro round_nat_exact) simp
  then show ?thesis
    by (simp add: is_double_def round_double_def huge_def Let_def)
qed

lemma huge_plus_huge: "round_double (huge + huge) = PosInf"
proof -
  have "ulp (2 ^ (53 + 971)) = 2 ^ Suc 971" by (rule ulp_pow2)
  then have u: "ulp (2 ^ 1024) = 2 ^ 972" by simp
  have "round_nat (2 ^ 1024) = 2 ^ 1024"
    using u by (intro round_nat_exact) simp
  then show ?thesis
    by (simp add: round_double_def huge_def Let_def)
qed

subsection \<open>A call that runs alone\<close>

text \<open>
  Run from its invocation to its answer with nothing in between, a call does to the
  store, and answers, what the function of its method says: the functions of the DAO
  and of the service are the interleaving model restricted to one call.
\<close>

lemma resume_pending:
  "sys_step eng (Resume 0 fault) \<lparr>db = s, calls = [Pending v p]\<rparr> =
     (case dao_step eng fault p s of
        (Return r, s') \<Rightarrow> \<lparr>db = s', calls = [Answered (svc_reply v r)]\<rparr>
      | (Await p', s') \<Rightarrow> \<lparr>db = s', calls = [Pending v p']\<rparr>)"
  by (simp split: prod.splits progress.splits)

lemma resume_answered:
  "sys_step eng (Resume 0 fault) \<lparr>db = s, calls = [Answered r]\<rparr> = \<lparr>db = s, calls = [Answered r]\<rparr>"
  by simp

lemma invoke_first:
  "sys_step eng (Invoke x) \<lparr>db = s, calls = []\<rparr> = \<lparr>db = s, calls = [invoke x]\<rparr>"
  by simp

lemma alone_unfold:
  "sys_run eng (alone f x) c =
     sys_step eng (Resume 0 (f = Some 3)) (sys_step eng (Resume 0 (f = Some 2))
       (sys_step eng (Resume 0 (f = Some 1)) (sys_step eng (Resume 0 (f = Some 0))
         (sys_step eng (Invoke x) c))))"
  by (simp add: alone_def del: sys_step.simps)

lemmas alone_simps = alone_unfold invoke_first resume_pending resume_answered

lemma alone_checkoutBook:
  "sys_run eng (alone f (CheckoutBook r)) \<lparr>db = s, calls = []\<rparr> =
     \<lparr>db = snd (checkoutBook f r s), calls = [Answered (fst (checkoutBook f r s))]\<rparr>"
  by (simp add: alone_simps checkoutBook_def dao_checkoutBook_def Let_def
      del: sys_step.simps split: option.splits)

lemma alone_returnBook:
  "sys_run eng (alone f (ReturnBook r)) \<lparr>db = s, calls = []\<rparr> =
     \<lparr>db = snd (returnBook f r s), calls = [Answered (fst (returnBook f r s))]\<rparr>"
  by (simp add: alone_simps returnBook_def dao_returnBook_def Let_def
      del: sys_step.simps split: option.splits)

lemma alone_addBook:
  "sys_run eng (alone f (AddBook y r)) \<lparr>db = s, calls = []\<rparr> =
     \<lparr>db = snd (addBook y f r s),
      calls = [Answered (map_sum (\<lambda>e. e) (\<lambda>b. ()) (fst (addBook y f r s)))]\<rparr>"
  by (simp add: alone_simps addBook_def dao_addBook_def Let_def
      del: sys_step.simps split: option.splits sum.splits)

lemma alone_findBooks:
  "sys_run eng (alone f (FindBooks r)) \<lparr>db = s, calls = []\<rparr> =
     \<lparr>db = s, calls = [Answered (map_sum (\<lambda>e. e) (\<lambda>bs. ()) (findBooks eng f r s))]\<rparr>"
  by (simp add: alone_simps findBooks_def dao_findBooksBySearch_def Let_def
      del: sys_step.simps split: option.splits sum.splits)

lemma alone_clear:
  "sys_run eng (alone f Clear) \<lparr>db = s, calls = []\<rparr> =
     \<lparr>db = snd (clear f s), calls = [Answered (fst (clear f s))]\<rparr>"
  by (simp add: alone_simps clear_def dao_clearDatabase_def Let_def del: sys_step.simps)

subsection \<open>Evaluation of the sample data\<close>

lemmas eval_defs =
  validate_addBook_def addBook_def requiredFields_def has_field_def get_field_def
  trim_is_empty_def is_space_def is_digit_def is_upper_def is_lower_def is_word_char_def
  to_lower_def ci_eq_def str_def dao_addBook_def findOne_book_def findOne_patron_def
  matchedCount_def insertOne_def dao_checkoutBook_def checkoutBook_def dao_returnBook_def
  returnBook_def findBooks_def search_words_def dao_findBooksBySearch_def cursor_arg_def
  cursor_limit_def DEFAULT_COUNT_def query_matches_def regex_search_def addToSet_def Let_def
  hobbit_isbn_def hobbit_def hobbit_req_def hobbit_store_def lend_req_def lend_req2_def
  emma_isbn_def emma_def emma_req_def lend_emma_req_def p1_holding_def p2_holding_def
  empty_store_def start_def

lemmas round_defs = round_double_def round_nat_def ulp_small ulp_large

lemma validate_hobbit_req: "validate_addBook 2024 hobbit_req = Inr hobbit"
  by (simp add: eval_defs)

text \<open>A title of white space only is rejected, also when the white space is not ASCII.\<close>

lemma validate_blank_title:
  "validate_addBook 2024 (hobbit_req(''title'' \<mapsto> JStr [0xA0, 0x2003, 0xFEFF])) = Inl BAD_REQ"
  by (simp add: eval_defs)

subsection \<open>Re-adding a book with different metadata\<close>

text \<open>
  C1. The claim: an \<^verbatim>\<open>addBook\<close> whose isbn is stored and whose title, authors, pages, year
  or publisher differs from the stored record fails with BAD_REQ and leaves the record
  unchanged. The code: \<^verbatim>\<open>compareBook\<close> is never called. With The Hobbit stored with 2
  copies, a request for the same isbn with the title "The Lord", which \<open>compareBook\<close>
  reports as a difference in the title, succeeds and raises the stored nCopies to 4.
\<close>

theorem addBook_differing_title_is_accepted:
  "compareBook hobbit (hobbit\<lparr>title := str ''The Lord''\<rparr>) = Some ''title'' \<and>
   addBook 2024 None (hobbit_req(''title'' \<mapsto> JStr (str ''The Lord''))) hobbit_store =
     (Inr (hobbit\<lparr>title := str ''The Lord''\<rparr>),
      \<lparr>booksCollection = [hobbit\<lparr>nCopies := Fin 4\<rparr>], patronCollection = []\<rparr>)"
  by (simp add: eval_defs round_defs compareBook_def)

text \<open>
  In general: without a store fault, a request that passes the checks and whose isbn is
  stored succeeds and increments, whatever the other fields of the stored record are.
\<close>

lemma addBook_stored_isbn_is_incremented:
  assumes "validate_addBook y r = Inr b"
    and "findOne_book (isbn b) (booksCollection s) = Some b0"
  shows "addBook y None r s =
           (Inr b, s\<lparr>booksCollection := updateOne_inc (isbn b) (nCopies b) (booksCollection s)\<rparr>)"
proof -
  have "list_ex (\<lambda>x. isbn x = isbn b) (booksCollection s)"
    using assms(2) by (auto simp: findOne_book_def list_ex_iff find_Some_iff)
  then show ?thesis
    using assms by (simp add: addBook_def dao_addBook_def matchedCount_def)
qed

subsection \<open>Search with several words\<close>

text \<open>
  C2. The claim: \<^verbatim>\<open>findBooks\<close> returns the books in which every search word occurs in the
  title or in the authors, and the search "tolkien hobbit" returns The Hobbit by
  J.R.R. Tolkien. The code: the words are joined into the one pattern
  \<^verbatim>\<open>tolkien.*hobbit\<close>, which must match inside a single field. The book satisfies the
  documented rule for both words, and the search returns the empty list.
\<close>

theorem findBooks_tolkien_hobbit_is_empty:
  "search_words (str ''tolkien hobbit'') = [str ''tolkien'', str ''hobbit''] \<and>
   doc_matches eng [str ''tolkien'', str ''hobbit''] hobbit \<and>
   findBooks eng None
     [''search'' \<mapsto> JStr (str ''tolkien hobbit''), ''index'' \<mapsto> JNum (Num 0),
      ''count'' \<mapsto> JNum (Num 5)]
     hobbit_store = Inr []"
  by (simp add: eval_defs doc_matches_def ci_substring_def)

subsection \<open>Store faults in checkout and return\<close>

text \<open>
  C3. The claim: when the store reports an infrastructure fault during \<^verbatim>\<open>checkoutBook\<close>
  or \<^verbatim>\<open>returnBook\<close>, the caller receives code DB. The code: the DAO returns DB, and the
  service replaces every DAO error by BAD_REQ. With the first round trip failing, the
  DAO answers DB and the service answers BAD_REQ, for checkout and for return.
\<close>

theorem checkout_return_fault_is_BAD_REQ:
  "dao_checkoutBook (Some 0) (str ''p1'') hobbit_isbn hobbit_store = (Inl DB, hobbit_store) \<and>
   checkoutBook (Some 0) lend_req hobbit_store = (Inl BAD_REQ, hobbit_store) \<and>
   dao_returnBook (Some 0) (str ''p1'') hobbit_isbn hobbit_store = (Inl DB, hobbit_store) \<and>
   returnBook (Some 0) lend_req hobbit_store = (Inl BAD_REQ, hobbit_store)"
  by (simp add: eval_defs)

text \<open>The service never answers DB for a checkout or a return, whatever the fault.\<close>

lemma checkoutBook_never_DB: "fst (checkoutBook fault r s) \<noteq> Inl DB"
  by (simp add: checkoutBook_def split: prod.splits sum.splits)

lemma returnBook_never_DB: "fst (returnBook fault r s) \<noteq> Inl DB"
  by (simp add: returnBook_def split: prod.splits sum.splits)

subsection \<open>Numbers that are not positive integers\<close>

text \<open>
  C4. The claim: an \<^verbatim>\<open>addBook\<close> whose pages or nCopies is a number but not a positive
  integer fails with BAD_REQ. The code answers BAD_TYPE: for pages 0, for pages 1.5 and
  for nCopies -1, in requests that are valid otherwise.
\<close>

theorem addBook_nonpositive_pages_is_BAD_TYPE:
  "addBook 2024 None (hobbit_req(''pages'' \<mapsto> JNum (Num 0))) empty_store
     = (Inl BAD_TYPE, empty_store) \<and>
   addBook 2024 None (hobbit_req(''pages'' \<mapsto> JNum (Num (3 / 2)))) empty_store
     = (Inl BAD_TYPE, empty_store) \<and>
   addBook 2024 None (hobbit_req(''nCopies'' \<mapsto> JNum (Num (- 1)))) empty_store
     = (Inl BAD_TYPE, empty_store)"
  by (simp add: eval_defs)

subsection \<open>Fields of the wrong type in checkout and return\<close>

text \<open>
  C5. The claim: in \<^verbatim>\<open>checkoutBook\<close> and \<^verbatim>\<open>returnBook\<close> a patronId or isbn that is present
  but not a string fails with BAD_TYPE. The code answers MISSING: for the patronId 42
  and for the isbn 42, in both operations.
\<close>

theorem checkout_return_non_string_is_MISSING:
  "checkoutBook None (lend_req(''patronId'' \<mapsto> JNum (Num 42))) hobbit_store
     = (Inl MISSING, hobbit_store) \<and>
   checkoutBook None (lend_req(''isbn'' \<mapsto> JNum (Num 42))) hobbit_store
     = (Inl MISSING, hobbit_store) \<and>
   returnBook None (lend_req(''patronId'' \<mapsto> JNum (Num 42))) hobbit_store
     = (Inl MISSING, hobbit_store) \<and>
   returnBook None (lend_req(''isbn'' \<mapsto> JNum (Num 42))) hobbit_store
     = (Inl MISSING, hobbit_store)"
  by (simp add: eval_defs)

subsection \<open>Index and count of a search\<close>

text \<open>
  C6. The claim: a \<^verbatim>\<open>findBooks\<close> whose index or count is not a number fails with
  BAD_TYPE, and one whose index or count is negative fails with BAD_REQ. The code
  replaces such an index by 0 and such a count by 5 and runs the search: with the index
  "x", with the index -1 and with the count -1 the search for "hobbit" returns the book.
\<close>

theorem findBooks_bad_index_is_defaulted:
  "findBooks eng None [''search'' \<mapsto> JStr (str ''hobbit''), ''index'' \<mapsto> JStr (str ''x'')]
     hobbit_store = Inr [hobbit] \<and>
   findBooks eng None [''search'' \<mapsto> JStr (str ''hobbit''), ''index'' \<mapsto> JNum (Num (- 1))]
     hobbit_store = Inr [hobbit] \<and>
   findBooks eng None [''search'' \<mapsto> JStr (str ''hobbit''), ''count'' \<mapsto> JNum (Num (- 1))]
     hobbit_store = Inr [hobbit]"
  by (simp add: eval_defs)

subsection \<open>Overlapping checkouts of the last copy\<close>

text \<open>
  A checkout whose read of the book finds no copy left fails with BAD_REQ, whatever else
  is going on; and a checkout or a return that runs alone keeps every nCopies from
  going below 0.
\<close>

lemma checkout_reads_zero_copies:
  assumes "findOne_book i (booksCollection s) = Some b" and "inum_le0 (nCopies b)"
  shows "dao_step eng False (Checkout_findBook pid i) s = (Return (Inl BAD_REQ), s)"
  using assms by simp

lemma checkout_of_zero_copies:
  assumes "r ''patronId'' = Some (JStr pid)" "pid \<noteq> []" "r ''isbn'' = Some (JStr i)" "i \<noteq> []"
    "findOne_book i (booksCollection s) = Some b" "nCopies b = Fin 0"
  shows "checkoutBook fault r s = (Inl BAD_REQ, s)"
  using assms by (auto simp: checkoutBook_def dao_checkoutBook_def get_field_def)

lemma inum_add_nonneg:
  "\<not> inum_negative x \<Longrightarrow> 0 \<le> d \<Longrightarrow> \<not> inum_negative (inum_add x (Fin d))"
  by (cases x) (simp_all add: round_double_sign)

lemma inum_dec_nonneg:
  "\<not> inum_le0 x \<Longrightarrow> \<not> inum_negative (inum_add x (Fin (- 1)))"
  by (cases x) (simp_all add: round_double_sign)

lemma copies_nonneg_inc:
  "\<forall>b \<in> set bs. \<not> inum_negative (nCopies b) \<Longrightarrow> 0 \<le> d
    \<Longrightarrow> \<forall>b \<in> set (updateOne_inc i (Fin d) bs). \<not> inum_negative (nCopies b)"
  by (induction bs) (auto simp: inum_add_nonneg)

lemma copies_nonneg_dec:
  "\<forall>b \<in> set bs. \<not> inum_negative (nCopies b) \<Longrightarrow> findOne_book i bs = Some b
    \<Longrightarrow> \<not> inum_le0 (nCopies b)
    \<Longrightarrow> \<forall>b \<in> set (updateOne_inc i (Fin (- 1)) bs). \<not> inum_negative (nCopies b)"
  by (induction bs) (auto simp: findOne_book_def inum_dec_nonneg split: if_splits)

lemma checkoutBook_alone_copies:
  "copies_nonneg s \<Longrightarrow> copies_nonneg (snd (checkoutBook fault r s))"
  by (auto simp: checkoutBook_def dao_checkoutBook_def copies_nonneg_def Let_def
      split: option.splits if_splits dest: copies_nonneg_dec)

lemma returnBook_alone_copies:
  "copies_nonneg s \<Longrightarrow> copies_nonneg (snd (returnBook fault r s))"
  using copies_nonneg_inc[of "booksCollection s" 1 "the_str (get_field r ''isbn'')"]
  by (auto simp: returnBook_def dao_returnBook_def copies_nonneg_def Let_def
      split: option.splits if_splits)

text \<open>
  C7. The claim: under every sequence of operations from the empty store, a checkout
  fails with BAD_REQ when the book's nCopies is 0, and no nCopies is ever negative. The
  code: \<^verbatim>\<open>checkoutBook\<close> reads nCopies in one round trip and decrements in a later one
  whose filter is the isbn alone. One copy of The Hobbit is added; p1 and p2 each start a
  checkout and both read nCopies 1 before either decrements. Both calls answer ok, both
  patrons hold the book, and the stored nCopies is -1.
\<close>

theorem last_copy_race_goes_negative:
  "sys_run eng last_copy_race start =
     \<lparr>db = \<lparr>booksCollection = [hobbit\<lparr>nCopies := Fin (- 1)\<rparr>],
             patronCollection = [p1_holding, p2_holding]\<rparr>,
      calls = [Answered (Inr ()), Answered (Inr ()), Answered (Inr ())]\<rparr> \<and>
   inum_negative (nCopies (hobbit\<lparr>nCopies := Fin (- 1)\<rparr>))"
  by (simp add: last_copy_race_def eval_defs round_defs)

subsection \<open>What a successful call has done\<close>

lemma positive_integer:
  "num_is_integer n \<Longrightarrow> \<not> num_le n (Num 0) \<Longrightarrow> 0 < num_to_int n"
  by (cases n) auto

lemma validate_addBook_Inr:
  assumes "validate_addBook y r = Inr b"
  shows "isbn b = the_str (get_field r ''isbn'')"
    and "nCopies b = Fin (num_to_int (the_num (get_field r ''nCopies'')))"
    and "0 < num_to_int (the_num (get_field r ''nCopies''))"
  using assms
  by (auto simp: validate_addBook_def positive_integer split: if_splits)

lemma num_less_year_mono:
  "y1 \<le> y2 \<Longrightarrow> \<not> num_less (Num (of_int y1)) n \<Longrightarrow> \<not> num_less (Num (of_int y2)) n"
  by (cases n) auto

lemma validate_addBook_mono:
  assumes "validate_addBook y1 r = Inr b" and "y1 \<le> y2"
  shows "validate_addBook y2 r = Inr b"
  using assms
  by (auto simp: validate_addBook_def split: if_splits dest: num_less_year_mono)

lemma dao_checkoutBook_ok:
  assumes "dao_checkoutBook f pid i s = (Inr u, s1)"
  shows "s1 = \<lparr>booksCollection = updateOne_inc i (Fin (- 1)) (booksCollection s),
               patronCollection = updateOne_addToSet pid i (patronCollection s)\<rparr>"
    and "\<exists>b. findOne_book i (booksCollection s) = Some b \<and> \<not> inum_le0 (nCopies b)"
    and "i \<notin> set (held pid s)"
  using assms
  by (auto simp: dao_checkoutBook_def held_def Let_def split: option.splits if_splits)

lemma dao_returnBook_ok:
  assumes "dao_returnBook f pid i s = (Inr u, s1)"
  shows "s1 = \<lparr>booksCollection = updateOne_inc i (Fin 1) (booksCollection s),
               patronCollection = updateOne_pull pid i (patronCollection s)\<rparr>"
    and "\<exists>p. findOne_patron pid (patronCollection s) = Some p \<and> i \<in> set (checkedOutBooks p)"
  using assms
  by (auto simp: dao_returnBook_def Let_def split: option.splits if_splits)

lemma checkoutBook_ok:
  assumes "checkoutBook f r s = (Inr u, s1)"
  shows "dao_checkoutBook f (the_str (get_field r ''patronId'')) (the_str (get_field r ''isbn'')) s
           = (Inr (), s1)"
  using assms by (auto simp: checkoutBook_def split: if_splits prod.splits sum.splits)

lemma returnBook_ok:
  assumes "returnBook f r s = (Inr u, s1)"
  shows "dao_returnBook f (the_str (get_field r ''patronId'')) (the_str (get_field r ''isbn'')) s
           = (Inr (), s1)"
  using assms by (auto simp: returnBook_def split: if_splits prod.splits sum.splits)

subsection \<open>Checkout followed by return\<close>

lemma dec_inc_safe:
  assumes "0 < n" and "n \<le> 2 ^ 53"
  shows "inum_add (inum_add (Fin n) (Fin (- 1))) (Fin 1) = Fin n"
proof -
  have "\<bar>n - 1\<bar> \<le> 2 ^ 53" and "\<bar>n\<bar> \<le> 2 ^ 53"
    using assms by simp_all
  then have "round_double (n - 1) = Fin (n - 1)" and "round_double n = Fin n"
    by (simp_all only: round_double_safe)
  then show ?thesis by simp
qed

lemma inc_dec_cancel:
  assumes "findOne_book i bs = Some b" and "nCopies b = Fin n" and "0 < n" and "n \<le> 2 ^ 53"
  shows "updateOne_inc i (Fin 1) (updateOne_inc i (Fin (- 1)) bs) = bs"
  using assms
  by (induction bs) (auto simp: findOne_book_def dec_inc_safe simp del: inum_add.simps)

lemma findOne_pull:
  "findOne_patron pid ps = Some p
    \<Longrightarrow> \<exists>p'. findOne_patron pid (updateOne_pull pid i ps) = Some p' \<and> i \<notin> set (checkedOutBooks p')"
  by (induction ps) (auto simp: findOne_patron_def split: if_splits)

text \<open>
  C8. The claim: for every state, a successful checkout followed by a successful return
  of the same patron and isbn leaves the book's nCopies equal to its value before, and
  the patron's checkedOutBooks no longer contains the isbn. The second part holds in
  every state. The first part holds when the nCopies before the pair is at most \<open>2^53\<close>:
  then the record found under the isbn after the pair is the record found before.
  nCopies is a double, and above \<open>2^53\<close> the two additions round.
\<close>

theorem checkout_then_return_roundtrip:
  assumes pid: "r ''patronId'' = Some (JStr pid)" and i: "r ''isbn'' = Some (JStr i)"
    and lend: "checkoutBook f1 r s = (Inr (), s1)"
    and ret: "returnBook f2 r s1 = (Inr (), s2)"
  shows "(\<exists>p. findOne_patron pid (patronCollection s2) = Some p \<and> i \<notin> set (checkedOutBooks p)) \<and>
         (\<forall>b n. findOne_book i (booksCollection s) = Some b \<and> nCopies b = Fin n \<and> n \<le> 2 ^ 53
            \<longrightarrow> findOne_book i (booksCollection s2) = Some b)"
proof -
  have g: "the_str (get_field r ''patronId'') = pid" "the_str (get_field r ''isbn'') = i"
    using pid i by (simp_all add: get_field_def)
  note taken = dao_checkoutBook_ok[OF checkoutBook_ok[OF lend, unfolded g]]
  note given = dao_returnBook_ok[OF returnBook_ok[OF ret, unfolded g]]
  from given(2) obtain p where "findOne_patron pid (patronCollection s1) = Some p"
    by blast
  from findOne_pull[OF this, of i]
  have patron: "\<exists>p. findOne_patron pid (patronCollection s2) = Some p \<and> i \<notin> set (checkedOutBooks p)"
    using given(1) by simp
  have "findOne_book i (booksCollection s2) = Some b"
    if book: "findOne_book i (booksCollection s) = Some b"
      and safe: "nCopies b = Fin n" "n \<le> 2 ^ 53" for b n
  proof -
    have "0 < n"
      using taken(2) book safe(1) by simp
    then have "booksCollection s2 = booksCollection s"
      using taken(1) given(1) inc_dec_cancel[OF book safe(1) _ safe(2)] by simp
    with book show ?thesis by simp
  qed
  with patron show ?thesis by blast
qed

theorem checkout_then_return_roundtrip_witness:
  "checkoutBook None lend_req hobbit_store
     = (Inr (), \<lparr>booksCollection = [hobbit\<lparr>nCopies := Fin 1\<rparr>], patronCollection = [p1_holding]\<rparr>) \<and>
   returnBook None lend_req
       \<lparr>booksCollection = [hobbit\<lparr>nCopies := Fin 1\<rparr>], patronCollection = [p1_holding]\<rparr>
     = (Inr (), \<lparr>booksCollection = [hobbit],
                 patronCollection = [\<lparr>id_patron = str ''p1'', checkedOutBooks = []\<rparr>]\<rparr>) \<and>
   findOne_book hobbit_isbn (booksCollection hobbit_store) = Some hobbit \<and>
   nCopies hobbit = Fin 2 \<and> (2::int) \<le> 2 ^ 53 \<and>
   findOne_book hobbit_isbn [hobbit] = Some hobbit \<and>
   (\<exists>p. findOne_patron (str ''p1'') [\<lparr>id_patron = str ''p1'', checkedOutBooks = []\<rparr>] = Some p \<and>
        hobbit_isbn \<notin> set (checkedOutBooks p))"
proof -
  have a: "lend_req ''patronId'' = Some (JStr (str ''p1''))"
    and b: "lend_req ''isbn'' = Some (JStr hobbit_isbn)"
    by (simp_all add: lend_req_def)
  have c: "findOne_book hobbit_isbn (booksCollection hobbit_store) = Some hobbit"
    by (simp add: eval_defs)
  have d: "nCopies hobbit = Fin 2" "(2::int) \<le> 2 ^ 53"
    by (simp_all add: hobbit_def)
  have e: "checkoutBook None lend_req hobbit_store
     = (Inr (), \<lparr>booksCollection = [hobbit\<lparr>nCopies := Fin 1\<rparr>], patronCollection = [p1_holding]\<rparr>)"
    by (simp add: eval_defs round_defs)
  have f: "returnBook None lend_req
       \<lparr>booksCollection = [hobbit\<lparr>nCopies := Fin 1\<rparr>], patronCollection = [p1_holding]\<rparr>
     = (Inr (), \<lparr>booksCollection = [hobbit],
                 patronCollection = [\<lparr>id_patron = str ''p1'', checkedOutBooks = []\<rparr>]\<rparr>)"
    by (simp add: eval_defs round_defs)
  note t = checkout_then_return_roundtrip[OF a b e f]
  have "findOne_book hobbit_isbn [hobbit] = Some hobbit"
    using t c d by simp
  with t c d e f show ?thesis by simp
qed

text \<open>
  Above \<open>2^53\<close> the first part fails. A book is added with nCopies 9007199254740994, which
  is \<open>2^53 + 2\<close> and a double; p1 checks it out and returns it, both with success; the
  stored nCopies is then 9007199254740992.
\<close>

theorem checkout_then_return_loses_copies:
  "addBook 2024 None big_req empty_store
     = (Inr (hobbit\<lparr>nCopies := Fin 9007199254740994\<rparr>),
        \<lparr>booksCollection = [hobbit\<lparr>nCopies := Fin 9007199254740994\<rparr>], patronCollection = []\<rparr>) \<and>
   checkoutBook None lend_req
       \<lparr>booksCollection = [hobbit\<lparr>nCopies := Fin 9007199254740994\<rparr>], patronCollection = []\<rparr>
     = (Inr (), \<lparr>booksCollection = [hobbit\<lparr>nCopies := Fin 9007199254740992\<rparr>],
                 patronCollection = [p1_holding]\<rparr>) \<and>
   returnBook None lend_req
       \<lparr>booksCollection = [hobbit\<lparr>nCopies := Fin 9007199254740992\<rparr>],
        patronCollection = [p1_holding]\<rparr>
     = (Inr (), \<lparr>booksCollection = [hobbit\<lparr>nCopies := Fin 9007199254740992\<rparr>],
                 patronCollection = [\<lparr>id_patron = str ''p1'', checkedOutBooks = []\<rparr>]\<rparr>) \<and>
   nCopies (hobbit\<lparr>nCopies := Fin 9007199254740992\<rparr>)
     \<noteq> nCopies (hobbit\<lparr>nCopies := Fin 9007199254740994\<rparr>)"
  by (simp add: big_req_def eval_defs round_defs)

subsection \<open>Adding the same book twice\<close>

lemma findOne_book_None: "findOne_book i bs = None \<longleftrightarrow> (\<forall>x \<in> set bs. isbn x \<noteq> i)"
  by (auto simp: findOne_book_def find_None_iff)

lemma updateOne_inc_absent:
  "\<forall>x \<in> set bs. isbn x \<noteq> i \<Longrightarrow> updateOne_inc i d (bs @ cs) = bs @ updateOne_inc i d cs"
  by (induction bs) auto

lemma findOne_book_append_absent:
  "\<forall>x \<in> set bs. isbn x \<noteq> i \<Longrightarrow> findOne_book i (bs @ cs) = findOne_book i cs"
  by (induction bs) (auto simp: findOne_book_def)

lemma dao_addBook_new:
  assumes "findOne_book (isbn b) (booksCollection s) = None"
  shows "dao_addBook None b s = (Inr b, s\<lparr>booksCollection := booksCollection s @ [b]\<rparr>)"
  using assms
  by (auto simp: dao_addBook_def insertOne_def findOne_book_None list_ex_iff)

lemma dao_addBook_again:
  assumes "\<forall>x \<in> set bs. isbn x \<noteq> isbn b" and "booksCollection s = bs @ [b0]"
    and "isbn b0 = isbn b"
  shows "dao_addBook None b s
           = (Inr b, s\<lparr>booksCollection := bs @ [b0\<lparr>nCopies := inum_add (nCopies b0) (nCopies b)\<rparr>]\<rparr>)"
proof -
  have "findOne_book (isbn b) [b0] = Some b0"
    using assms(3) by (simp add: findOne_book_def)
  then have found: "findOne_book (isbn b) (booksCollection s) = Some b0"
    using assms(1,2) by (simp add: findOne_book_append_absent)
  have upd: "updateOne_inc (isbn b) (nCopies b) (booksCollection s)
               = bs @ [b0\<lparr>nCopies := inum_add (nCopies b0) (nCopies b)\<rparr>]"
    using assms by (simp add: updateOne_inc_absent)
  have "matchedCount (isbn b) (booksCollection s) = 1"
    using assms(2,3) by (simp add: matchedCount_def)
  with found upd show ?thesis
    by (simp add: dao_addBook_def)
qed

lemma validate_huge_req: "validate_addBook 2024 huge_req = Inr (hobbit\<lparr>nCopies := Fin huge\<rparr>)"
  using huge_pos by (simp add: huge_req_def eval_defs)

text \<open>
  C9. The claim: calling \<^verbatim>\<open>addBook\<close> twice with the same isbn, identical valid metadata
  and nCopies k yields a single stored record for the isbn whose nCopies is 2k. This
  holds when 2k is a finite double, that is for k below \<open>2^1023\<close>. Let a request pass the
  checks of \<^verbatim>\<open>addBook\<close> (in the year of the first call, the second call being in the
  same or a later year) with nCopies k, a double below \<open>2^1023\<close>, and let the store hold
  no book with its isbn. Without store faults both calls succeed and return the book of
  the request, and afterwards the store holds exactly one record with that isbn: the
  book of the request with nCopies 2k.
\<close>

theorem addBook_twice_sums_copies:
  assumes valid: "validate_addBook y1 r = Inr b" and later: "y1 \<le> y2"
    and k: "r ''nCopies'' = Some (JNum (Num (of_int k)))"
    and dbl: "is_double k" and small: "k < 2 ^ 1023"
    and absent: "findOne_book (isbn b) (booksCollection s) = None"
  shows "\<exists>s1 s2. addBook y1 None r s = (Inr b, s1) \<and> addBook y2 None r s1 = (Inr b, s2) \<and>
           filter (\<lambda>x. isbn x = isbn b) (booksCollection s2) = [b\<lparr>nCopies := Fin (2 * k)\<rparr>]"
proof -
  let ?bs = "booksCollection s"
  let ?s1 = "s\<lparr>booksCollection := ?bs @ [b]\<rparr>"
  let ?s2 = "?s1\<lparr>booksCollection := ?bs @ [b\<lparr>nCopies := inum_add (nCopies b) (nCopies b)\<rparr>]\<rparr>"
  have none: "\<forall>x \<in> set ?bs. isbn x \<noteq> isbn b"
    using absent by (simp add: findOne_book_None)
  have copies: "nCopies b = Fin k" and pos: "0 < k"
    using validate_addBook_Inr(2,3)[OF valid] k by (simp_all add: get_field_def)
  have sum: "inum_add (nCopies b) (nCopies b) = Fin (2 * k)"
    using is_double_double[OF dbl pos small] copies by simp
  have first: "addBook y1 None r s = (Inr b, ?s1)"
    using valid dao_addBook_new[OF absent] by (simp add: addBook_def)
  have second: "addBook y2 None r ?s1 = (Inr b, ?s2)"
    using validate_addBook_mono[OF valid later] dao_addBook_again[of ?bs b ?s1 b] none
    by (simp add: addBook_def)
  have "filter (\<lambda>x. isbn x = isbn b) (booksCollection ?s2) = [b\<lparr>nCopies := Fin (2 * k)\<rparr>]"
    using none sum by (simp add: filter_empty_conv)
  with first second show ?thesis by blast
qed

theorem addBook_twice_sums_copies_witness:
  "validate_addBook 2024 hobbit_req = Inr hobbit \<and>
   hobbit_req ''nCopies'' = Some (JNum (Num (of_int 2))) \<and>
   is_double 2 \<and> (2::int) < 2 ^ 1023 \<and>
   findOne_book (isbn hobbit) (booksCollection empty_store) = None \<and>
   (\<exists>s1 s2. addBook 2024 None hobbit_req empty_store = (Inr hobbit, s1) \<and>
        addBook 2025 None hobbit_req s1 = (Inr hobbit, s2) \<and>
        filter (\<lambda>x. isbn x = isbn hobbit) (booksCollection s2) = [hobbit\<lparr>nCopies := Fin 4\<rparr>])"
proof -
  have v: "validate_addBook 2024 hobbit_req = Inr hobbit"
    by (simp add: eval_defs)
  have k: "hobbit_req ''nCopies'' = Some (JNum (Num (of_int 2)))"
    by (simp add: hobbit_req_def)
  have d: "is_double 2"
    by (simp add: is_double_def round_defs Let_def)
  have s: "(2::int) < 2 ^ 1023"
    by simp
  have a: "findOne_book (isbn hobbit) (booksCollection empty_store) = None"
    by (simp add: eval_defs)
  show ?thesis
    using v k d s a addBook_twice_sums_copies[OF v _ k d s a, of 2025] by simp
qed

text \<open>
  From \<open>2^1023\<close> on the sum is not stored. \<open>huge\<close> is \<open>2^1023\<close>, a double that
  \<^verbatim>\<open>Number.isInteger\<close> accepts; the second \<^verbatim>\<open>$inc\<close> overflows and the stored nCopies
  is Infinity.
\<close>

theorem addBook_twice_overflows:
  "is_double huge \<and>
   addBook 2024 None huge_req empty_store
     = (Inr (hobbit\<lparr>nCopies := Fin huge\<rparr>),
        \<lparr>booksCollection = [hobbit\<lparr>nCopies := Fin huge\<rparr>], patronCollection = []\<rparr>) \<and>
   addBook 2024 None huge_req
       \<lparr>booksCollection = [hobbit\<lparr>nCopies := Fin huge\<rparr>], patronCollection = []\<rparr>
     = (Inr (hobbit\<lparr>nCopies := Fin huge\<rparr>),
        \<lparr>booksCollection = [hobbit\<lparr>nCopies := PosInf\<rparr>], patronCollection = []\<rparr>) \<and>
   nCopies (hobbit\<lparr>nCopies := PosInf\<rparr>) \<noteq> Fin (2 * huge)"
proof -
  have v: "validate_addBook 2024 huge_req = Inr (hobbit\<lparr>nCopies := Fin huge\<rparr>)"
    by (rule validate_huge_req)
  have one: "addBook 2024 None huge_req empty_store
     = (Inr (hobbit\<lparr>nCopies := Fin huge\<rparr>),
        \<lparr>booksCollection = [hobbit\<lparr>nCopies := Fin huge\<rparr>], patronCollection = []\<rparr>)"
    using v by (simp add: addBook_def dao_addBook_def findOne_book_def insertOne_def
        empty_store_def)
  have two: "addBook 2024 None huge_req
       \<lparr>booksCollection = [hobbit\<lparr>nCopies := Fin huge\<rparr>], patronCollection = []\<rparr>
     = (Inr (hobbit\<lparr>nCopies := Fin huge\<rparr>),
        \<lparr>booksCollection = [hobbit\<lparr>nCopies := PosInf\<rparr>], patronCollection = []\<rparr>)"
    using v huge_plus_huge
    by (simp add: addBook_def dao_addBook_def findOne_book_def matchedCount_def)
  show ?thesis
    using is_double_huge one two by simp
qed

subsection \<open>One record for an isbn\<close>

text \<open>
  No interleaving of calls stores two books under one isbn: of two overlapping
  \<^verbatim>\<open>addBook\<close> calls that both found the isbn absent, the second \<^verbatim>\<open>insertOne\<close> throws.
\<close>

lemma map_isbn_updateOne_inc: "map isbn (updateOne_inc i d bs) = map isbn bs"
  by (induction bs) auto

lemma dao_step_unique:
  "distinct (map isbn (booksCollection s))
    \<Longrightarrow> distinct (map isbn (booksCollection (snd (dao_step eng fault p s))))"
proof (cases p)
  case (AddBook_insertOne book)
  assume "distinct (map isbn (booksCollection s))"
  then show ?thesis
    using AddBook_insertOne by (auto simp: insertOne_def list_ex_iff)
qed (simp_all add: Let_def map_isbn_updateOne_inc split: option.splits sum.splits)

lemma sys_step_db:
  obtains "db (sys_step eng e c) = db c"
  | fault p where "db (sys_step eng e c) = snd (dao_step eng fault p (db c))"
proof (cases e)
  case (Invoke x)
  then have "db (sys_step eng e c) = db c" by simp
  then show ?thesis by (rule that(1))
next
  case (Resume j fault)
  show ?thesis
  proof (cases "j < length (calls c)")
    case False
    then have "db (sys_step eng e c) = db c" using Resume by simp
    then show ?thesis by (rule that(1))
  next
    case True
    show ?thesis
    proof (cases "calls c ! j")
      case (Answered r)
      then have "db (sys_step eng e c) = db c" using Resume True by simp
      then show ?thesis by (rule that(1))
    next
      case (Pending v p)
      then have "db (sys_step eng e c) = snd (dao_step eng fault p (db c))"
        using Resume True by (simp split: prod.splits progress.splits)
      then show ?thesis by (rule that(2))
    qed
  qed
qed

lemma sys_step_unique:
  "distinct (map isbn (booksCollection (db c)))
    \<Longrightarrow> distinct (map isbn (booksCollection (db (sys_step eng e c))))"
  by (rule sys_step_db[of eng e c]) (simp_all add: dao_step_unique)

lemma sys_run_unique:
  "distinct (map isbn (booksCollection (db (sys_run eng evs start))))"
proof -
  have "distinct (map isbn (booksCollection (db c)))
          \<Longrightarrow> distinct (map isbn (booksCollection (db (sys_run eng evs c))))" for c
    by (induction evs arbitrary: c) (auto simp: sys_step_unique simp del: sys_step.simps)
  then show ?thesis
    by (simp add: start_def empty_store_def)
qed

subsection \<open>A patron never holds an isbn twice\<close>

lemma distinct_addToSet: "distinct xs \<Longrightarrow> distinct (addToSet i xs)"
  by (simp add: addToSet_def)

lemma holds_addToSet:
  "\<forall>p \<in> set ps. distinct (checkedOutBooks p)
    \<Longrightarrow> \<forall>p \<in> set (updateOne_addToSet pid i ps). distinct (checkedOutBooks p)"
  by (induction ps) (auto simp: distinct_addToSet)

lemma holds_pull:
  "\<forall>p \<in> set ps. distinct (checkedOutBooks p)
    \<Longrightarrow> \<forall>p \<in> set (updateOne_pull pid i ps). distinct (checkedOutBooks p)"
  by (induction ps) auto

lemma holds_distinct_addToSet:
  "holds_distinct s
    \<Longrightarrow> holds_distinct (s\<lparr>patronCollection := updateOne_addToSet pid i (patronCollection s)\<rparr>)"
  using holds_addToSet[of "patronCollection s" pid i] by (simp add: holds_distinct_def)

lemma holds_distinct_pull:
  "holds_distinct s
    \<Longrightarrow> holds_distinct (s\<lparr>patronCollection := updateOne_pull pid i (patronCollection s)\<rparr>)"
  using holds_pull[of "patronCollection s" pid i] by (simp add: holds_distinct_def)

lemma holds_distinct_books: "holds_distinct (s\<lparr>booksCollection := bs\<rparr>) = holds_distinct s"
  by (simp add: holds_distinct_def)

lemma holds_distinct_clear: "holds_distinct (s\<lparr>patronCollection := []\<rparr>)"
  by (simp add: holds_distinct_def)

lemma dao_step_holds:
  "holds_distinct s \<Longrightarrow> holds_distinct (snd (dao_step eng fault p s))"
  by (cases p)
    (simp_all add: holds_distinct_addToSet holds_distinct_pull holds_distinct_books
      holds_distinct_clear Let_def split: option.splits sum.splits)

lemma sys_step_holds: "holds_distinct (db c) \<Longrightarrow> holds_distinct (db (sys_step eng e c))"
  by (rule sys_step_db[of eng e c]) (simp_all add: dao_step_holds)

lemma sys_run_holds: "holds_distinct (db c) \<Longrightarrow> holds_distinct (db (sys_run eng evs c))"
  by (induction evs arbitrary: c) (auto simp: sys_step_holds simp del: sys_step.simps)

lemma held_addToSet:
  "held pid (s\<lparr>patronCollection := updateOne_addToSet pid i (patronCollection s)\<rparr>)
     = addToSet i (held pid s)"
proof -
  have "(case findOne_patron pid (updateOne_addToSet pid i ps) of
           None \<Rightarrow> [] | Some p \<Rightarrow> checkedOutBooks p)
        = addToSet i (case findOne_patron pid ps of None \<Rightarrow> [] | Some p \<Rightarrow> checkedOutBooks p)"
    for ps
    by (induction ps) (auto simp: findOne_patron_def addToSet_def)
  then show ?thesis by (simp add: held_def)
qed

lemma held_pull:
  "held pid (s\<lparr>patronCollection := updateOne_pull pid i (patronCollection s)\<rparr>)
     = filter (\<lambda>x. x \<noteq> i) (held pid s)"
proof -
  have "(case findOne_patron pid (updateOne_pull pid i ps) of
           None \<Rightarrow> [] | Some p \<Rightarrow> checkedOutBooks p)
        = filter (\<lambda>x. x \<noteq> i)
            (case findOne_patron pid ps of None \<Rightarrow> [] | Some p \<Rightarrow> checkedOutBooks p)"
    for ps
    by (induction ps) (auto simp: findOne_patron_def)
  then show ?thesis by (simp add: held_def)
qed

lemma held_books: "held pid (s\<lparr>booksCollection := bs\<rparr>) = held pid s"
  by (simp add: held_def)

lemma dao_checkoutBook_adds:
  assumes "dao_checkoutBook f pid i s = (Inr (), s')"
  shows "i \<notin> set (held pid s) \<and> held pid s' = held pid s @ [i]"
proof -
  note ok = dao_checkoutBook_ok[OF assms]
  have "held pid s' = addToSet i (held pid s)"
    using held_addToSet[where pid = pid and i = i
        and s = "s\<lparr>booksCollection := updateOne_inc i (Fin (- 1)) (booksCollection s)\<rparr>"]
    by (simp add: ok(1) held_def)
  with ok(3) show ?thesis by (simp add: addToSet_def)
qed

lemma held_Some:
  assumes "i \<in> set (held pid s)"
  obtains p where "findOne_patron pid (patronCollection s) = Some p" "i \<in> set (checkedOutBooks p)"
  using assms by (cases "findOne_patron pid (patronCollection s)") (auto simp: held_def)

lemma dao_checkoutBook_held:
  assumes "i \<in> set (held pid s)"
  shows "dao_checkoutBook None pid i s = (Inl BAD_REQ, s)"
  by (rule held_Some[OF assms]) (simp add: dao_checkoutBook_def split: option.splits)

lemma checkout_of_held_book:
  assumes "r ''patronId'' = Some (JStr pid)" "pid \<noteq> []" "r ''isbn'' = Some (JStr i)" "i \<noteq> []"
    "i \<in> set (held pid s)"
  shows "checkoutBook fault r s = (Inl BAD_REQ, s)"
  using assms(1-4)
  by (rule_tac held_Some[OF assms(5)])
    (simp add: checkoutBook_def dao_checkoutBook_def get_field_def split: option.splits)

lemma dao_returnBook_removes:
  assumes "dao_returnBook f pid i s = (Inr (), s')"
  shows "i \<in> set (held pid s) \<and> held pid s' = filter (\<lambda>x. x \<noteq> i) (held pid s)"
proof -
  note ok = dao_returnBook_ok[OF assms]
  have "held pid s' = filter (\<lambda>x. x \<noteq> i) (held pid s)"
    using held_pull[where pid = pid and i = i
        and s = "s\<lparr>booksCollection := updateOne_inc i (Fin 1) (booksCollection s)\<rparr>"]
    by (simp add: ok(1) held_def)
  with ok(2) show ?thesis by (auto simp: held_def)
qed

text \<open>
  C10. Whatever calls of the service have been invoked on the empty store and however
  their round trips have interleaved, with whatever faults, the checkedOutBooks of
  every patron record holds no isbn twice. The mechanism: a successful checkout finds
  the isbn absent from the patron's list and leaves the list with the isbn added at its
  end; a checkout of an isbn the patron's list holds is rejected with BAD_REQ and leaves
  the store as it is; a successful return finds the isbn in the list and leaves the
  list with every occurrence of it removed.
\<close>

theorem checkedOutBooks_never_duplicated:
  "(\<forall>p \<in> set (patronCollection (db (sys_run eng evs start))). distinct (checkedOutBooks p)) \<and>
   (\<forall>f pid i s s'. dao_checkoutBook f pid i s = (Inr (), s')
      \<longrightarrow> i \<notin> set (held pid s) \<and> held pid s' = held pid s @ [i]) \<and>
   (\<forall>pid i s. i \<in> set (held pid s) \<longrightarrow> dao_checkoutBook None pid i s = (Inl BAD_REQ, s)) \<and>
   (\<forall>f r pid i s.
      r ''patronId'' = Some (JStr pid) \<and> pid \<noteq> [] \<and> r ''isbn'' = Some (JStr i) \<and> i \<noteq> [] \<and>
      i \<in> set (held pid s)
      \<longrightarrow> checkoutBook f r s = (Inl BAD_REQ, s)) \<and>
   (\<forall>f pid i s s'. dao_returnBook f pid i s = (Inr (), s')
      \<longrightarrow> i \<in> set (held pid s) \<and> held pid s' = filter (\<lambda>x. x \<noteq> i) (held pid s))"
proof -
  have "holds_distinct (db start)"
    by (simp add: holds_distinct_def start_def empty_store_def)
  then have "holds_distinct (db (sys_run eng evs start))"
    by (rule sys_run_holds)
  then have "\<forall>p \<in> set (patronCollection (db (sys_run eng evs start))). distinct (checkedOutBooks p)"
    by (simp add: holds_distinct_def)
  then show ?thesis
    using dao_checkoutBook_adds dao_checkoutBook_held checkout_of_held_book dao_returnBook_removes
    by blast
qed

lemma run_same_patron_race:
  "sys_run eng same_patron_race start =
     \<lparr>db = \<lparr>booksCollection = [hobbit\<lparr>nCopies := Fin 0\<rparr>, emma\<lparr>nCopies := Fin 0\<rparr>],
             patronCollection =
               [\<lparr>id_patron = str ''p1'', checkedOutBooks = [hobbit_isbn, emma_isbn]\<rparr>]\<rparr>,
      calls = [Answered (Inr ()), Answered (Inr ()), Answered (Inr ()), Answered (Inr ()),
               Answered (Inr ())]\<rparr>"
  by (simp add: same_patron_race_def eval_defs round_defs)

theorem checkedOutBooks_never_duplicated_witness:
  "\<lparr>id_patron = str ''p1'', checkedOutBooks = [hobbit_isbn, emma_isbn]\<rparr>
     \<in> set (patronCollection (db (sys_run sample_engine same_patron_race start))) \<and>
   distinct [hobbit_isbn, emma_isbn] \<and>
   dao_checkoutBook None (str ''p1'') hobbit_isbn hobbit_store = (Inr (), one_left) \<and>
   held (str ''p1'') hobbit_store = [] \<and> held (str ''p1'') one_left = [hobbit_isbn] \<and>
   findOne_book hobbit_isbn (booksCollection one_left) = Some (hobbit\<lparr>nCopies := Fin 1\<rparr>) \<and>
   dao_checkoutBook None (str ''p1'') hobbit_isbn one_left = (Inl BAD_REQ, one_left) \<and>
   checkoutBook None lend_req one_left = (Inl BAD_REQ, one_left) \<and>
   dao_returnBook None (str ''p1'') hobbit_isbn one_left
     = (Inr (), \<lparr>booksCollection = [hobbit],
                 patronCollection = [\<lparr>id_patron = str ''p1'', checkedOutBooks = []\<rparr>]\<rparr>) \<and>
   held (str ''p1'') \<lparr>booksCollection = [hobbit],
                      patronCollection = [\<lparr>id_patron = str ''p1'', checkedOutBooks = []\<rparr>]\<rparr> = []"
proof -
  note t = checkedOutBooks_never_duplicated[of sample_engine same_patron_race]
  let ?p = "\<lparr>id_patron = str ''p1'', checkedOutBooks = [hobbit_isbn, emma_isbn]\<rparr>"
  let ?returned = "\<lparr>booksCollection = [hobbit],
                patronCollection = [\<lparr>id_patron = str ''p1'', checkedOutBooks = []\<rparr>]\<rparr>"
  have m: "?p \<in> set (patronCollection (db (sys_run sample_engine same_patron_race start)))"
    by (simp add: run_same_patron_race)
  have "distinct (checkedOutBooks ?p)"
    using t m by blast
  then have d: "distinct [hobbit_isbn, emma_isbn]"
    by simp
  have lend: "dao_checkoutBook None (str ''p1'') hobbit_isbn hobbit_store = (Inr (), one_left)"
    by (simp add: one_left_def eval_defs round_defs)
  have book: "findOne_book hobbit_isbn (booksCollection one_left) = Some (hobbit\<lparr>nCopies := Fin 1\<rparr>)"
    by (simp add: one_left_def eval_defs)
  have ret: "dao_returnBook None (str ''p1'') hobbit_isbn one_left = (Inr (), ?returned)"
    by (simp add: one_left_def eval_defs round_defs)
  have h0: "held (str ''p1'') hobbit_store = []"
    by (simp add: held_def eval_defs)
  have fields: "lend_req ''patronId'' = Some (JStr (str ''p1'')) \<and> str ''p1'' \<noteq> [] \<and>
      lend_req ''isbn'' = Some (JStr hobbit_isbn) \<and> hobbit_isbn \<noteq> []"
    by (simp add: eval_defs)
  have h1: "held (str ''p1'') one_left = [hobbit_isbn]"
    using t lend h0 by (metis append_Nil)
  then have mem: "hobbit_isbn \<in> set (held (str ''p1'') one_left)"
    by simp
  have again: "dao_checkoutBook None (str ''p1'') hobbit_isbn one_left = (Inl BAD_REQ, one_left)"
    using t mem by blast
  have svc: "checkoutBook None lend_req one_left = (Inl BAD_REQ, one_left)"
    using t mem fields by blast
  have "held (str ''p1'') ?returned = filter (\<lambda>x. x \<noteq> hobbit_isbn) (held (str ''p1'') one_left)"
    using t ret by blast
  then have h2: "held (str ''p1'') ?returned = []"
    using h1 by simp
  show ?thesis
    using m d lend h0 h1 book again svc ret h2 by simp
qed

end
